theory Spec2Isabelle
  imports Main "HOL-Library.Char_ord" "HOL-Library.List_Lexorder" "HOL-Library.Multiset"
begin

unbundle bit_operations_syntax

section \<open>Strings, buffers and errors\<close>

text \<open>
  A JavaScript string is modelled as a \<^typ>\<open>string\<close> whose characters are the
  code units U+0000 .. U+00FF; a Node \<open>Buffer\<close> is a list of bytes. Whatever falls
  outside this domain (code points above U+00FF, numbers that are not safe integers)
  is reported by the model as \<open>Unmodelled\<close>, so that no theorem speaks about it.
  Exceptions are values: a function that can throw returns \<open>error + 'a\<close>.
\<close>

type_synonym buffer = "char list"

datatype error =
    SyntaxError
  | TypeError
  | Error string
  | ValidationError string
  | AppError string nat
  | Unmodelled

text \<open>\<open>Buffer.from(str, 'utf8')\<close> and \<open>buffer.toString('utf8')\<close> on that domain.\<close>

definition utf8_char :: "char \<Rightarrow> buffer" where
  "utf8_char c =
     (if (of_char c :: nat) < 128 then [c]
      else [char_of (192 + (of_char c :: nat) div 64), char_of (128 + (of_char c :: nat) mod 64)])"

definition utf8_encode :: "string \<Rightarrow> buffer" where
  "utf8_encode s = concat (map utf8_char s)"

fun utf8_decode :: "buffer \<Rightarrow> string option" where
  "utf8_decode [] = Some []"
| "utf8_decode [b] =
     (if (of_char b :: nat) < 128 then Some [b] else None)"
| "utf8_decode (b # b2 # bs) =
     (if (of_char b :: nat) < 128 then map_option ((#) b) (utf8_decode (b2 # bs))
      else if ((of_char b :: nat) = 194 \<or> (of_char b :: nat) = 195)
              \<and> 128 \<le> (of_char b2 :: nat) \<and> (of_char b2 :: nat) < 192
      then map_option ((#) (char_of (((of_char b :: nat) - 192) * 64 + ((of_char b2 :: nat) - 128))))
             (utf8_decode bs)
      else None)"

section \<open>SHA-256, as \<open>crypto.createHash('sha256')\<close> computes it\<close>

text \<open>
  32-bit words are natural numbers below \<open>2 ^ 32\<close>; every addition writes its
  wrap-around out. The digest is the lowercase hexadecimal string of \<open>digest('hex')\<close>.
  The round constants and the initial state are those of FIPS 180-4, in decimal.
\<close>

definition K256 :: "nat list" where
  "K256 = [
   1116352408, 1899447441, 3049323471, 3921009573, 961987163, 1508970993, 2453635748, 2870763221,
   3624381080, 310598401, 607225278, 1426881987, 1925078388, 2162078206, 2614888103, 3248222580,
   3835390401, 4022224774, 264347078, 604807628, 770255983, 1249150122, 1555081692, 1996064986,
   2554220882, 2821834349, 2952996808, 3210313671, 3336571891, 3584528711, 113926993, 338241895,
   666307205, 773529912, 1294757372, 1396182291, 1695183700, 1986661051, 2177026350, 2456956037,
   2730485921, 2820302411, 3259730800, 3345764771, 3516065817, 3600352804, 4094571909, 275423344,
   430227734, 506948616, 659060556, 883997877, 958139571, 1322822218, 1537002063, 1747873779,
   1955562222, 2024104815, 2227730452, 2361852424, 2428436474, 2756734187, 3204031479, 3329325298]"

type_synonym sha_state = "nat \<times> nat \<times> nat \<times> nat \<times> nat \<times> nat \<times> nat \<times> nat"

definition H256 :: sha_state where
  "H256 = (1779033703, 3144134277, 1013904242, 2773480762,
           1359893119, 2600822924, 528734635, 1541459225)"

definition add32 :: "nat \<Rightarrow> nat \<Rightarrow> nat" where
  "add32 a b = (a + b) mod 4294967296"

definition rotr :: "nat \<Rightarrow> nat \<Rightarrow> nat" where
  "rotr n x = x div 2 ^ n + (x mod 2 ^ n) * 2 ^ (32 - n)"

definition shr :: "nat \<Rightarrow> nat \<Rightarrow> nat" where
  "shr n x = x div 2 ^ n"

definition ssig0 :: "nat \<Rightarrow> nat" where
  "ssig0 x = rotr 7 x XOR rotr 18 x XOR shr 3 x"

definition ssig1 :: "nat \<Rightarrow> nat" where
  "ssig1 x = rotr 17 x XOR rotr 19 x XOR shr 10 x"

definition bsig0 :: "nat \<Rightarrow> nat" where
  "bsig0 x = rotr 2 x XOR rotr 13 x XOR rotr 22 x"

definition bsig1 :: "nat \<Rightarrow> nat" where
  "bsig1 x = rotr 6 x XOR rotr 11 x XOR rotr 25 x"

definition ch :: "nat \<Rightarrow> nat \<Rightarrow> nat \<Rightarrow> nat" where
  "ch x y z = (x AND y) XOR ((x XOR 4294967295) AND z)"

definition maj :: "nat \<Rightarrow> nat \<Rightarrow> nat \<Rightarrow> nat" where
  "maj x y z = (x AND y) XOR (x AND z) XOR (y AND z)"

fun round_out :: "nat \<Rightarrow> nat \<Rightarrow> sha_state \<Rightarrow> sha_state" where
  "round_out t1 t2 (a, b, c, d, e, f, g, h) = (add32 t1 t2, a, b, c, add32 d t1, e, f, g)"

fun round_step :: "sha_state \<Rightarrow> nat \<times> nat \<Rightarrow> sha_state" where
  "round_step (a, b, c, d, e, f, g, h) (k, w) =
     round_out (add32 (add32 (add32 (add32 h (bsig1 e)) (ch e f g)) k) w)
               (add32 (bsig0 a) (maj a b c)) (a, b, c, d, e, f, g, h)"

fun be32 :: "nat list \<Rightarrow> nat list" where
  "be32 (a # b # c # d # rest) = (((a * 256 + b) * 256 + c) * 256 + d) # be32 rest"
| "be32 _ = []"

text \<open>The message schedule, most recent word first while it is being extended.\<close>

definition sched_step :: "nat list \<Rightarrow> nat \<Rightarrow> nat list" where
  "sched_step ws t =
     add32 (add32 (add32 (ssig1 (ws ! 1)) (ws ! 6)) (ssig0 (ws ! 14))) (ws ! 15) # ws"

definition schedule :: "nat list \<Rightarrow> nat list" where
  "schedule block = rev (foldl sched_step (rev (be32 block)) [16..<64])"

fun add_state :: "sha_state \<Rightarrow> sha_state \<Rightarrow> sha_state" where
  "add_state (a, b, c, d, e, f, g, h) (a', b', c', d', e', f', g', h') =
     (add32 a a', add32 b b', add32 c c', add32 d d',
      add32 e e', add32 f f', add32 g g', add32 h h')"

definition compress :: "sha_state \<Rightarrow> nat list \<Rightarrow> sha_state" where
  "compress st block = add_state st (foldl round_step st (zip K256 (schedule block)))"

definition be64 :: "nat \<Rightarrow> nat list" where
  "be64 v = map (\<lambda>i. (v div 256 ^ i) mod 256) [7, 6, 5, 4, 3, 2, 1, 0]"

definition pad :: "nat list \<Rightarrow> nat list" where
  "pad m = m @ [128] @ replicate ((119 - length m mod 64) mod 64) 0 @ be64 (8 * length m)"

function blocks :: "nat list \<Rightarrow> nat list list" where
  "blocks bs = (if length bs < 64 then [] else take 64 bs # blocks (drop 64 bs))"
  by pat_completeness auto
termination
  by (relation "measure length") auto

declare blocks.simps [simp del]

definition sha256 :: "nat list \<Rightarrow> sha_state" where
  "sha256 m = foldl compress H256 (blocks (pad m))"

definition hexdigit :: "nat \<Rightarrow> char" where
  "hexdigit n = ''0123456789abcdef'' ! n"

definition hex32 :: "nat \<Rightarrow> string" where
  "hex32 w = map (\<lambda>i. hexdigit ((w div 16 ^ i) mod 16)) [7, 6, 5, 4, 3, 2, 1, 0]"

fun state_words :: "sha_state \<Rightarrow> nat list" where
  "state_words (a, b, c, d, e, f, g, h) = [a, b, c, d, e, f, g, h]"

definition sha256_hex :: "buffer \<Rightarrow> string" where
  "sha256_hex buf = concat (map hex32 (state_words (sha256 (map of_char buf))))"

text \<open>\<open>sha256Hex(str)\<close> of tools/hash.js: the digest of the UTF-8 bytes of the string.\<close>

definition sha256Hex :: "string \<Rightarrow> string" where
  "sha256Hex str = sha256_hex (utf8_encode str)"

text \<open>\<open>computeBinaryProofHash(buffer)\<close>, the same in the routes and in tools/hash.js.\<close>

definition computeBinaryProofHash :: "buffer \<Rightarrow> string" where
  "computeBinaryProofHash buf = sha256_hex buf"

section \<open>JavaScript values that JSON can carry\<close>

text \<open>
  An object is the list of its own enumerable properties in the order in which
  JavaScript enumerates them (\<open>Object.keys\<close>, \<open>JSON.stringify\<close>): keys that are
  array indices first, in ascending numeric order, then the other keys in the
  order of their creation. Numbers are the safe integers.
\<close>

datatype json =
    JUndefined
  | JNull
  | JBool bool
  | JNum int
  | JStr string
  | JArr "json list"
  | JObj "(string \<times> json) list"

definition is_digit :: "char \<Rightarrow> bool" where
  "is_digit c = (48 \<le> (of_char c :: nat) \<and> (of_char c :: nat) \<le> 57)"

definition dec_value :: "string \<Rightarrow> nat" where
  "dec_value ds = foldl (\<lambda>a c. 10 * a + ((of_char c :: nat) - 48)) 0 ds"

text \<open>A key is an array index when it is the canonical decimal form of an integer
  below \<open>2 ^ 32 - 1\<close>.\<close>

definition array_index :: "string \<Rightarrow> nat option" where
  "array_index k =
     (if k \<noteq> [] \<and> list_all is_digit k \<and> (k = ''0'' \<or> hd k \<noteq> CHR ''0'')
         \<and> dec_value k < 4294967295
      then Some (dec_value k) else None)"

fun obj_insert :: "string \<Rightarrow> json \<Rightarrow> (string \<times> json) list \<Rightarrow> (string \<times> json) list" where
  "obj_insert k v [] = [(k, v)]"
| "obj_insert k v ((k', v') # rest) =
     (case array_index k of
        None \<Rightarrow> (k', v') # obj_insert k v rest
      | Some i \<Rightarrow>
          (case array_index k' of
             None \<Rightarrow> (k, v) # (k', v') # rest
           | Some j \<Rightarrow> if i < j then (k, v) # (k', v') # rest
                       else (k', v') # obj_insert k v rest))"

fun obj_update :: "string \<Rightarrow> json \<Rightarrow> (string \<times> json) list \<Rightarrow> (string \<times> json) list" where
  "obj_update k v [] = []"
| "obj_update k v ((k', v') # rest) =
     (if k' = k then (k', v) # obj_update k v rest else (k', v') # obj_update k v rest)"

text \<open>\<open>CreateDataProperty\<close>, by which \<open>JSON.parse\<close> builds an object: a key that is
  already there keeps its place and takes the new value.\<close>

definition obj_define :: "string \<Rightarrow> json \<Rightarrow> (string \<times> json) list \<Rightarrow> (string \<times> json) list" where
  "obj_define k v kvs = (if k \<in> fst ` set kvs then obj_update k v kvs else obj_insert k v kvs)"

text \<open>The assignment \<open>out[key] = v\<close> on an object literal. Assigning to \<open>__proto__\<close>
  reaches the setter of \<open>Object.prototype\<close> and creates no own property.\<close>

definition obj_assign :: "(string \<times> json) list \<Rightarrow> string \<Rightarrow> json \<Rightarrow> (string \<times> json) list" where
  "obj_assign out k v = (if k = ''__proto__'' then out else obj_define k v out)"

text \<open>The read \<open>obj[key]\<close> of an own property; \<open>undefined\<close> when there is none.\<close>

definition obj_get :: "(string \<times> json) list \<Rightarrow> string \<Rightarrow> json" where
  "obj_get kvs k = (case map_of kvs k of Some v \<Rightarrow> v | None \<Rightarrow> JUndefined)"

lemma size_map_of:
  "map_of kvs k = Some v \<Longrightarrow> size v < Suc (size_list (size_prod (\<lambda>_. 0) size) kvs)"
  by (induction kvs) (auto split: if_splits)

lemma size_obj_get:
  "(k, v) \<in> set kvs \<Longrightarrow> size (obj_get kvs k) \<le> size_list (size_prod (\<lambda>_. 0) size) kvs"
proof -
  assume "(k, v) \<in> set kvs"
  then obtain w where w: "map_of kvs k = Some w"
    by (meson weak_map_of_SomeI)
  from size_map_of [OF w] show ?thesis
    by (simp add: obj_get_def w)
qed

section \<open>tools/hash.js: canonicalize\<close>

function canonicalize :: "json \<Rightarrow> json" where
  "canonicalize JNull = JNull"
| "canonicalize JUndefined = JUndefined"
| "canonicalize (JArr xs) = JArr (map canonicalize xs)"
| "canonicalize (JObj kvs) =
     JObj (foldl (\<lambda>out key. obj_assign out key (canonicalize (obj_get kvs key)))
             [] (sort (map fst kvs)))"
| "canonicalize (JBool b) = JBool b"
| "canonicalize (JNum n) = JNum n"
| "canonicalize (JStr s) = JStr s"
  by pat_completeness auto
termination
  by (relation "measure size") (auto simp: less_Suc_eq_le size_list_estimation' dest: size_obj_get)

section \<open>\<open>JSON.stringify\<close>, \<open>String\<close> and \<open>Object.keys\<close>\<close>

function nat_to_string :: "nat \<Rightarrow> string" where
  "nat_to_string n =
     (if n < 10 then [''0123456789'' ! n]
      else nat_to_string (n div 10) @ [''0123456789'' ! (n mod 10)])"
  by pat_completeness auto
termination
  by (relation "measure id") auto

declare nat_to_string.simps [simp del]

definition int_to_string :: "int \<Rightarrow> string" where
  "int_to_string i = (if i < 0 then CHR ''-'' # nat_to_string (nat (- i)) else nat_to_string (nat i))"

fun join :: "string \<Rightarrow> string list \<Rightarrow> string" where
  "join sep [] = []"
| "join sep [x] = x"
| "join sep (x # y # ys) = x @ sep @ join sep (y # ys)"

text \<open>\<open>QuoteJSONString\<close> on code units below U+0100.\<close>

definition quote_char :: "char \<Rightarrow> string" where
  "quote_char c =
     (if c = CHR 0x22 then [CHR 0x5C, CHR 0x22]
      else if c = CHR 0x5C then [CHR 0x5C, CHR 0x5C]
      else if c = CHR 0x08 then [CHR 0x5C, CHR ''b'']
      else if c = CHR 0x0C then [CHR 0x5C, CHR ''f'']
      else if c = CHR 0x0A then [CHR 0x5C, CHR ''n'']
      else if c = CHR 0x0D then [CHR 0x5C, CHR ''r'']
      else if c = CHR 0x09 then [CHR 0x5C, CHR ''t'']
      else if (of_char c :: nat) < 32
        then [CHR 0x5C, CHR ''u'', CHR ''0'', CHR ''0'',
              hexdigit ((of_char c :: nat) div 16), hexdigit ((of_char c :: nat) mod 16)]
      else [c])"

definition quote :: "string \<Rightarrow> string" where
  "quote s = CHR 0x22 # concat (map quote_char s) @ [CHR 0x22]"

text \<open>\<open>JSON.stringify(value)\<close>; \<open>None\<close> is the result \<open>undefined\<close>.\<close>

fun stringify :: "json \<Rightarrow> string option"
  and stringify_elems :: "json list \<Rightarrow> string list"
  and stringify_members :: "(string \<times> json) list \<Rightarrow> string list" where
  "stringify JUndefined = None"
| "stringify JNull = Some ''null''"
| "stringify (JBool b) = Some (if b then ''true'' else ''false'')"
| "stringify (JNum n) = Some (int_to_string n)"
| "stringify (JStr s) = Some (quote s)"
| "stringify (JArr xs) = Some (''['' @ join '','' (stringify_elems xs) @ '']'')"
| "stringify (JObj kvs) = Some (''{'' @ join '','' (stringify_members kvs) @ ''}'')"
| "stringify_elems [] = []"
| "stringify_elems (x # xs) =
     (case stringify x of None \<Rightarrow> ''null'' | Some s \<Rightarrow> s) # stringify_elems xs"
| "stringify_members [] = []"
| "stringify_members ((k, v) # kvs) =
     (case stringify v of
        None \<Rightarrow> stringify_members kvs
      | Some s \<Rightarrow> (quote k @ '':'' @ s) # stringify_members kvs)"

text \<open>\<open>JSON.stringify(value, null, 2)\<close>: \<open>ind\<close> is the current indentation.\<close>

fun stringify_pretty :: "string \<Rightarrow> json \<Rightarrow> string option"
  and pretty_elems :: "string \<Rightarrow> json list \<Rightarrow> string list"
  and pretty_members :: "string \<Rightarrow> (string \<times> json) list \<Rightarrow> string list" where
  "stringify_pretty ind JUndefined = None"
| "stringify_pretty ind JNull = Some ''null''"
| "stringify_pretty ind (JBool b) = Some (if b then ''true'' else ''false'')"
| "stringify_pretty ind (JNum n) = Some (int_to_string n)"
| "stringify_pretty ind (JStr s) = Some (quote s)"
| "stringify_pretty ind (JArr xs) =
     (case pretty_elems (ind @ ''  '') xs of
        [] \<Rightarrow> Some ''[]''
      | p # ps \<Rightarrow> Some (''['' @ [CHR 0x0A] @ ind @ ''  ''
                    @ join ('','' @ [CHR 0x0A] @ ind @ ''  '') (p # ps)
                    @ [CHR 0x0A] @ ind @ '']''))"
| "stringify_pretty ind (JObj kvs) =
     (case pretty_members (ind @ ''  '') kvs of
        [] \<Rightarrow> Some ''{}''
      | p # ps \<Rightarrow> Some (''{'' @ [CHR 0x0A] @ ind @ ''  ''
                    @ join ('','' @ [CHR 0x0A] @ ind @ ''  '') (p # ps)
                    @ [CHR 0x0A] @ ind @ ''}''))"
| "pretty_elems ind [] = []"
| "pretty_elems ind (x # xs) =
     (case stringify_pretty ind x of None \<Rightarrow> ''null'' | Some s \<Rightarrow> s) # pretty_elems ind xs"
| "pretty_members ind [] = []"
| "pretty_members ind ((k, v) # kvs) =
     (case stringify_pretty ind v of
        None \<Rightarrow> pretty_members ind kvs
      | Some s \<Rightarrow> (quote k @ '': '' @ s) # pretty_members ind kvs)"

text \<open>
  \<open>JSON.stringify(value, replacer)\<close> with an array replacer: \<open>ks\<close> is the property
  list made from the array, and every object, at every depth, is written with the
  keys of \<open>ks\<close> that it owns, in the order of \<open>ks\<close>. (A key of \<open>ks\<close> that the object
  does not own is read through the prototype chain; on \<open>Object.prototype\<close> that
  finds only functions, which are skipped, except under the key \<open>__proto__\<close>, which
  the callers of this function exclude.)
\<close>

function stringify_keys :: "string list \<Rightarrow> json \<Rightarrow> string option"
  and keys_elems :: "string list \<Rightarrow> json list \<Rightarrow> string list"
  and keys_members :: "string list \<Rightarrow> (string \<times> json) list \<Rightarrow> string list \<Rightarrow> string list" where
  "stringify_keys ks JUndefined = None"
| "stringify_keys ks JNull = Some ''null''"
| "stringify_keys ks (JBool b) = Some (if b then ''true'' else ''false'')"
| "stringify_keys ks (JNum n) = Some (int_to_string n)"
| "stringify_keys ks (JStr s) = Some (quote s)"
| "stringify_keys ks (JArr xs) = Some (''['' @ join '','' (keys_elems ks xs) @ '']'')"
| "stringify_keys ks (JObj kvs) = Some (''{'' @ join '','' (keys_members ks kvs ks) @ ''}'')"
| "keys_elems ks [] = []"
| "keys_elems ks (x # xs) =
     (case stringify_keys ks x of None \<Rightarrow> ''null'' | Some s \<Rightarrow> s) # keys_elems ks xs"
| "keys_members ks kvs [] = []"
| "keys_members ks kvs (p # ps) =
     (case map_of kvs p of
        None \<Rightarrow> keys_members ks kvs ps
      | Some v \<Rightarrow>
          (case stringify_keys ks v of
             None \<Rightarrow> keys_members ks kvs ps
           | Some s \<Rightarrow> (quote p @ '':'' @ s) # keys_members ks kvs ps))"
  by pat_completeness auto
termination
  by (relation "measures
       [\<lambda>x. case x of
          Inl (ks, v) \<Rightarrow> 2 * size v
        | Inr (Inl (ks, xs)) \<Rightarrow> 2 * size_list size xs + 1
        | Inr (Inr (ks, kvs, ps)) \<Rightarrow> 2 * size_list (size_prod (\<lambda>_. 0) size) kvs + 1,
        \<lambda>x. case x of Inr (Inr (ks, kvs, ps)) \<Rightarrow> length ps | _ \<Rightarrow> 0]")
     (auto dest: size_map_of)

text \<open>The property list of an array replacer keeps the first occurrence of each key.\<close>

definition property_list :: "string list \<Rightarrow> string list" where
  "property_list ks = rev (remdups (rev ks))"

text \<open>\<open>String(value)\<close>, which \<open>JSON.parse\<close> applies to an argument that is not a string.\<close>

fun to_string :: "json \<Rightarrow> string"
  and to_string_elems :: "json list \<Rightarrow> string list" where
  "to_string JUndefined = ''undefined''"
| "to_string JNull = ''null''"
| "to_string (JBool b) = (if b then ''true'' else ''false'')"
| "to_string (JNum n) = int_to_string n"
| "to_string (JStr s) = s"
| "to_string (JArr xs) = join '','' (to_string_elems xs)"
| "to_string (JObj kvs) = ''[object Object]''"
| "to_string_elems [] = []"
| "to_string_elems (x # xs) =
     (if x = JNull \<or> x = JUndefined then [] else to_string x) # to_string_elems xs"

text \<open>\<open>Object.keys(value)\<close>: a \<open>TypeError\<close> on \<open>null\<close> and \<open>undefined\<close>, the indices of
  an array or of a string, nothing for a number or a boolean.\<close>

fun object_keys :: "json \<Rightarrow> error + string list" where
  "object_keys JUndefined = Inl TypeError"
| "object_keys JNull = Inl TypeError"
| "object_keys (JBool b) = Inr []"
| "object_keys (JNum n) = Inr []"
| "object_keys (JStr s) = Inr (map nat_to_string [0..<length s])"
| "object_keys (JArr xs) = Inr (map nat_to_string [0..<length xs])"
| "object_keys (JObj kvs) = Inr (map fst kvs)"

section \<open>\<open>JSON.parse\<close>\<close>

definition is_ws :: "char \<Rightarrow> bool" where
  "is_ws c = (c = CHR '' '' \<or> c = CHR 0x09 \<or> c = CHR 0x0A \<or> c = CHR 0x0D)"

definition skip_ws :: "string \<Rightarrow> string" where
  "skip_ws s = dropWhile is_ws s"

definition hex_value :: "char \<Rightarrow> nat option" where
  "hex_value c =
     (let n = (of_char c :: nat) in
      if 48 \<le> n \<and> n \<le> 57 then Some (n - 48)
      else if 97 \<le> n \<and> n \<le> 102 then Some (n - 87)
      else if 65 \<le> n \<and> n \<le> 70 then Some (n - 55)
      else None)"

definition unescape :: "char \<Rightarrow> char option" where
  "unescape e =
     (if e = CHR 0x22 then Some (CHR 0x22)
      else if e = CHR 0x5C then Some (CHR 0x5C)
      else if e = CHR ''/'' then Some (CHR ''/'')
      else if e = CHR ''b'' then Some (CHR 0x08)
      else if e = CHR ''f'' then Some (CHR 0x0C)
      else if e = CHR ''n'' then Some (CHR 0x0A)
      else if e = CHR ''r'' then Some (CHR 0x0D)
      else if e = CHR ''t'' then Some (CHR 0x09)
      else None)"

text \<open>The characters of a string literal after its opening quote; \<open>acc\<close> holds the
  characters read so far, last first.\<close>

fun parse_string_body :: "string \<Rightarrow> string \<Rightarrow> error + (string \<times> string)" where
  "parse_string_body [] acc = Inl SyntaxError"
| "parse_string_body (c # cs) acc =
     (if c = CHR 0x22 then Inr (rev acc, cs)
      else if c = CHR 0x5C then
        (case cs of
           [] \<Rightarrow> Inl SyntaxError
         | e # cs' \<Rightarrow>
             if e = CHR ''u'' then
               (case cs' of
                  h1 # h2 # h3 # h4 # cs'' \<Rightarrow>
                    (case (hex_value h1, hex_value h2, hex_value h3, hex_value h4) of
                       (Some a, Some b, Some c', Some d) \<Rightarrow>
                         if a = 0 \<and> b = 0 then parse_string_body cs'' (char_of (16 * c' + d) # acc)
                         else Inl Unmodelled
                     | _ \<Rightarrow> Inl SyntaxError)
                | _ \<Rightarrow> Inl SyntaxError)
             else
               (case unescape e of
                  None \<Rightarrow> Inl SyntaxError
                | Some x \<Rightarrow> parse_string_body cs' (x # acc)))
      else if (of_char c :: nat) < 32 then Inl SyntaxError
      else parse_string_body cs (c # acc))"

text \<open>A number token. An integer literal within the safe range is read exactly; a
  well-formed literal with a fraction or an exponent, or beyond the safe range, is a
  floating-point value and is left outside the model.\<close>

definition parse_exponent :: "string \<Rightarrow> (bool \<times> string) option" where
  "parse_exponent s =
     (case s of
        [] \<Rightarrow> Some (False, s)
      | e # r \<Rightarrow>
          if e = CHR ''e'' \<or> e = CHR ''E'' then
            (let r' = (case r of [] \<Rightarrow> r
                       | sg # r2 \<Rightarrow> if sg = CHR ''+'' \<or> sg = CHR ''-'' then r2 else r)
             in if takeWhile is_digit r' = [] then None
                else Some (True, dropWhile is_digit r'))
          else Some (False, s))"

definition parse_fraction :: "string \<Rightarrow> (bool \<times> string) option" where
  "parse_fraction s =
     (case s of
        [] \<Rightarrow> Some (False, s)
      | d # r \<Rightarrow>
          if d = CHR ''.'' then
            (if takeWhile is_digit r = [] then None
             else Some (True, dropWhile is_digit r))
          else Some (False, s))"

definition parse_number :: "string \<Rightarrow> error + (json \<times> string)" where
  "parse_number s =
     (let neg = (s \<noteq> [] \<and> hd s = CHR ''-'');
          s1 = (if neg then tl s else s);
          ds = takeWhile is_digit s1;
          r1 = dropWhile is_digit s1
      in if ds = [] then Inl SyntaxError
         else if hd ds = CHR ''0'' \<and> 1 < length ds then Inl SyntaxError
         else
           (case parse_fraction r1 of
              None \<Rightarrow> Inl SyntaxError
            | Some (has_frac, r2) \<Rightarrow>
                (case parse_exponent r2 of
                   None \<Rightarrow> Inl SyntaxError
                 | Some (has_exp, r3) \<Rightarrow>
                     if has_frac \<or> has_exp \<or> 9007199254740991 < dec_value ds then Inl Unmodelled
                     else Inr (JNum (if neg then - int (dec_value ds) else int (dec_value ds)), r3))))"

text \<open>
  The recursive descent over values, array elements and object members. The first
  argument bounds the number of calls still allowed; \<open>JSON_parse\<close> starts with more
  than the text can use, and a parse that would exhaust it is left outside the model.
\<close>

fun parse_value :: "nat \<Rightarrow> string \<Rightarrow> error + (json \<times> string)"
  and parse_elements :: "nat \<Rightarrow> json list \<Rightarrow> string \<Rightarrow> error + (json \<times> string)"
  and parse_members :: "nat \<Rightarrow> (string \<times> json) list \<Rightarrow> string \<Rightarrow> error + (json \<times> string)" where
  "parse_value 0 s = Inl Unmodelled"
| "parse_value (Suc n) s =
     (case skip_ws s of
        [] \<Rightarrow> Inl SyntaxError
      | c # cs \<Rightarrow>
          if c = CHR ''{'' then
            (case skip_ws cs of
               [] \<Rightarrow> Inl SyntaxError
             | d # r \<Rightarrow> if d = CHR ''}'' then Inr (JObj [], r) else parse_members n [] cs)
          else if c = CHR ''['' then
            (case skip_ws cs of
               [] \<Rightarrow> Inl SyntaxError
             | d # r \<Rightarrow> if d = CHR '']'' then Inr (JArr [], r) else parse_elements n [] cs)
          else if c = CHR 0x22 then
            (case parse_string_body cs [] of
               Inl e \<Rightarrow> Inl e
             | Inr (str, r) \<Rightarrow> Inr (JStr str, r))
          else if c = CHR ''-'' \<or> is_digit c then parse_number (c # cs)
          else if take 4 (c # cs) = ''true'' then Inr (JBool True, drop 4 (c # cs))
          else if take 5 (c # cs) = ''false'' then Inr (JBool False, drop 5 (c # cs))
          else if take 4 (c # cs) = ''null'' then Inr (JNull, drop 4 (c # cs))
          else Inl SyntaxError)"
| "parse_elements 0 acc s = Inl Unmodelled"
| "parse_elements (Suc n) acc s =
     (case parse_value n s of
        Inl e \<Rightarrow> Inl e
      | Inr (v, r) \<Rightarrow>
          (case skip_ws r of
             [] \<Rightarrow> Inl SyntaxError
           | d # r' \<Rightarrow>
               if d = CHR '','' then parse_elements n (v # acc) r'
               else if d = CHR '']'' then Inr (JArr (rev (v # acc)), r')
               else Inl SyntaxError))"
| "parse_members 0 acc s = Inl Unmodelled"
| "parse_members (Suc n) acc s =
     (case skip_ws s of
        [] \<Rightarrow> Inl SyntaxError
      | q # cs \<Rightarrow>
          if q \<noteq> CHR 0x22 then Inl SyntaxError
          else
            (case parse_string_body cs [] of
               Inl e \<Rightarrow> Inl e
             | Inr (k, r) \<Rightarrow>
                 (case skip_ws r of
                    [] \<Rightarrow> Inl SyntaxError
                  | col # r' \<Rightarrow>
                      if col \<noteq> CHR '':'' then Inl SyntaxError
                      else
                        (case parse_value n r' of
                           Inl e \<Rightarrow> Inl e
                         | Inr (v, r'') \<Rightarrow>
                             (case skip_ws r'' of
                                [] \<Rightarrow> Inl SyntaxError
                              | d # r3 \<Rightarrow>
                                  if d = CHR '','' then parse_members n (obj_define k v acc) r3
                                  else if d = CHR ''}'' then Inr (JObj (obj_define k v acc), r3)
                                  else Inl SyntaxError)))))"

definition JSON_parse :: "string \<Rightarrow> error + json" where
  "JSON_parse s =
     (case parse_value (2 * length s + 2) s of
        Inl e \<Rightarrow> Inl e
      | Inr (v, r) \<Rightarrow> if skip_ws r = [] then Inr v else Inl SyntaxError)"

section \<open>The proof hash of structured data\<close>

text \<open>
  \<open>computeJsonProofHash\<close> of tools/hash.js. The message of the error it throws quotes
  the cause; the model keeps the fixed part of the message.
\<close>

definition tool_computeJsonProofHash :: "json \<Rightarrow> error + string" where
  "tool_computeJsonProofHash jsonData =
     (case (case jsonData of JStr s \<Rightarrow> JSON_parse s | _ \<Rightarrow> Inr jsonData) of
        Inl Unmodelled \<Rightarrow> Inl Unmodelled
      | Inl _ \<Rightarrow> Inl (Error ''Failed to compute JSON proof hash'')
      | Inr parsed \<Rightarrow>
          (case stringify (canonicalize parsed) of
             None \<Rightarrow> Inl (Error ''Failed to compute JSON proof hash'')
           | Some canonicalJson \<Rightarrow> Inr (sha256Hex canonicalJson)))"

text \<open>
  \<open>computeFileProofHash\<close> of tools/hash.js, from the bytes that \<open>readFileSync\<close> returned:
  any failure of the JSON path, the parse or the hash, falls back to the bytes.
\<close>

definition computeFileProofHash :: "buffer \<Rightarrow> error + string" where
  "computeFileProofHash buf =
     (case utf8_decode buf of
        None \<Rightarrow> Inl Unmodelled
      | Some content \<Rightarrow>
          (case JSON_parse content of
             Inl Unmodelled \<Rightarrow> Inl Unmodelled
           | Inl _ \<Rightarrow> Inr (computeBinaryProofHash buf)
           | Inr jsonData \<Rightarrow>
               (case tool_computeJsonProofHash jsonData of
                  Inl Unmodelled \<Rightarrow> Inl Unmodelled
                | Inl _ \<Rightarrow> Inr (computeBinaryProofHash buf)
                | Inr h \<Rightarrow> Inr h)))"

text \<open>
  \<open>computeJsonProofHash\<close> as routes/credentials.js and routes/verification.js both
  define it, word for word: \<open>JSON.parse\<close> of the argument, then \<open>JSON.stringify\<close> with
  the sorted top-level keys as the replacer. A top-level key \<open>__proto__\<close> would make
  the replacer read the prototype of every nested object; that case is left outside
  the model.
\<close>

definition route_computeJsonProofHash :: "json \<Rightarrow> error + string" where
  "route_computeJsonProofHash jsonData =
     (case JSON_parse (to_string jsonData) of
        Inl Unmodelled \<Rightarrow> Inl Unmodelled
      | Inl _ \<Rightarrow> Inl (Error ''Invalid JSON data for hashing'')
      | Inr parsed \<Rightarrow>
          (case object_keys parsed of
             Inl _ \<Rightarrow> Inl (Error ''Invalid JSON data for hashing'')
           | Inr ks \<Rightarrow>
               if ''__proto__'' \<in> set ks then Inl Unmodelled
               else
                 (case stringify_keys (property_list (sort ks)) parsed of
                    None \<Rightarrow> Inl (Error ''Invalid JSON data for hashing'')
                  | Some canonicalized \<Rightarrow> Inr (sha256Hex canonicalized))))"

section \<open>Objects that differ in the order of their keys\<close>



section \<open>services/nillion.js: the credential store\<close>

text \<open>
  The encrypted database behind the Secretvaults SDK is a collaborator. Its state is
  the collection of records written so far; \<open>calls\<close> logs every SDK call in the
  order in which it is made. Whether a call succeeds is the environment's choice
  (\<open>sdk_env\<close>); \<open>findData\<close> answers with the records whose \<open>proof_hash\<close> matches
  the filter.
\<close>

record stored_record =
  rec_id :: string
  credential_id :: string
  proof_hash :: string
  file_name :: string
  file_type :: string
  size_bytes :: nat
  stored_at :: string
  document_content :: string

datatype sdk_call =
    ReadCollection
  | CreateCollection
  | CreateStandardData
  | RefreshRootToken
  | FindData
  | FindDataAlt

record nillion_state =
  collection_created :: bool
  records :: "stored_record list"
  calls :: "sdk_call list"

record sdk_env =
  client_ready :: bool
  read_collection_ok :: bool
  create_collection_ok :: bool
  create_data_ok :: bool
  refresh_token_ok :: bool
  find_data_ok :: bool
  find_data_alt_ok :: bool

definition log_call :: "sdk_call \<Rightarrow> nillion_state \<Rightarrow> nillion_state" where
  "log_call c st = st\<lparr>calls := calls st @ [c]\<rparr>"

text \<open>The object that \<open>getCredentialByProofHash\<close> returns for a matching record.\<close>

record credential =
  cred_id :: string
  cred_proof_hash :: string
  cred_file_name :: string
  cred_file_type :: string
  cred_size_bytes :: nat
  cred_stored_at :: string
  cred_record_id :: string
  cred_content :: "string option"
  cred_status :: string

definition credential_of :: "stored_record \<Rightarrow> credential" where
  "credential_of r =
     \<lparr>cred_id = credential_id r, cred_proof_hash = proof_hash r,
      cred_file_name = file_name r, cred_file_type = file_type r,
      cred_size_bytes = size_bytes r, cred_stored_at = stored_at r,
      cred_record_id = rec_id r,
      cred_content = (if document_content r \<noteq> [] then Some (document_content r) else None),
      cred_status = ''vaulted''\<rparr>"

definition find_data :: "string \<Rightarrow> nillion_state \<Rightarrow> stored_record list" where
  "find_data h st = filter (\<lambda>r. proof_hash r = h) (records st)"

text \<open>
  \<open>getCredentialByProofHash(proofHash)\<close>: it throws when the client is missing or the
  token cannot be refreshed; a \<open>findData\<close> that throws is tried once more with the
  other signature, and when both throw the credential counts as not found.
\<close>

definition getCredentialByProofHash ::
  "sdk_env \<Rightarrow> string \<Rightarrow> nillion_state \<Rightarrow> (error + credential option) \<times> nillion_state" where
  "getCredentialByProofHash env proofHash st =
     (if \<not> client_ready env then (Inl (Error ''Nillion builder client not initialized''), st)
      else
        (let st1 = log_call RefreshRootToken st in
         if \<not> refresh_token_ok env then (Inl (Error ''refreshRootToken failed''), st1)
         else
           (let st2 = log_call FindData st1 in
            if find_data_ok env
            then (Inr (map_option credential_of
                        (find (\<lambda>r. proof_hash r = proofHash) (find_data proofHash st2))), st2)
            else
              (let st3 = log_call FindDataAlt st2 in
               if find_data_alt_ok env
               then (Inr (map_option credential_of
                           (find (\<lambda>r. proof_hash r = proofHash) (find_data proofHash st3))), st3)
               else (Inr None, st3)))))"

text \<open>\<open>a || b\<close> on strings: the empty string is falsy.\<close>

definition or_else :: "string \<Rightarrow> string \<Rightarrow> string" where
  "or_else a b = (if a \<noteq> [] then a else b)"

record store_metadata =
  meta_fileName :: string
  meta_fileType :: string
  meta_proofHash :: string
  meta_sizeBytes :: nat
  meta_userId :: string

record plaintext_fields =
  pf_credential_id :: string
  pf_proof_hash :: string
  pf_file_name :: string
  pf_file_type :: string
  pf_size_bytes :: nat
  pf_stored_at :: string

definition utf8_length :: "string \<Rightarrow> nat" where
  "utf8_length s = length (utf8_encode s)"

text \<open>The fields in the order of \<open>Object.entries(plaintextFields)\<close>, each with its
  encoded size: the UTF-8 length of a string, the length of the JSON form of a number.\<close>

definition field_sizes :: "plaintext_fields \<Rightarrow> (string \<times> nat) list" where
  "field_sizes pf =
     [(''credential_id'', utf8_length (pf_credential_id pf)),
      (''proof_hash'', utf8_length (pf_proof_hash pf)),
      (''file_name'', utf8_length (pf_file_name pf)),
      (''file_type'', utf8_length (pf_file_type pf)),
      (''size_bytes'', length (nat_to_string (pf_size_bytes pf))),
      (''stored_at'', utf8_length (pf_stored_at pf))]"

text \<open>\<open>s.lastIndexOf('.')\<close>, \<open>None\<close> for \<open>-1\<close>.\<close>

fun lastIndexOf :: "char \<Rightarrow> string \<Rightarrow> nat option" where
  "lastIndexOf c [] = None"
| "lastIndexOf c (x # xs) =
     (case lastIndexOf c xs of
        Some i \<Rightarrow> Some (Suc i)
      | None \<Rightarrow> if x = c then Some 0 else None)"

text \<open>The truncation of an oversized \<open>file_name\<close>: 3500 characters of the name, and
  the extension when the last dot is not the first character.\<close>

definition truncate_file_name :: "string \<Rightarrow> string" where
  "truncate_file_name name =
     (case lastIndexOf (CHR ''.'') name of
        Some extIndex \<Rightarrow>
          if 0 < extIndex then take 3500 (take extIndex name) @ drop extIndex name
          else take 3500 name
      | None \<Rightarrow> take 3500 name)"

text \<open>The first loop over the fields: the first field above 4096 bytes throws, unless
  it is \<open>file_name\<close>, which is truncated. The loop reads the values as they were
  when it started.\<close>

fun first_check :: "(string \<times> nat) list \<Rightarrow> plaintext_fields \<Rightarrow> error + plaintext_fields" where
  "first_check [] pf = Inr pf"
| "first_check ((fieldName, encodedSize) # rest) pf =
     (if 4096 < encodedSize then
        (if fieldName = ''file_name''
         then first_check rest (pf\<lparr>pf_file_name := truncate_file_name (pf_file_name pf)\<rparr>)
         else Inl (Error (''Plaintext field '' @ fieldName @ '' is too large'')))
      else first_check rest pf)"

text \<open>The second loop, over the fields as they are after the first.\<close>

fun second_check :: "(string \<times> nat) list \<Rightarrow> error option" where
  "second_check [] = None"
| "second_check ((fieldName, encodedSize) # rest) =
     (if 4096 < encodedSize then Some (Error (''Plaintext field '' @ fieldName @ '' is too large''))
      else second_check rest)"

definition validate_plaintext :: "plaintext_fields \<Rightarrow> error + plaintext_fields" where
  "validate_plaintext pf =
     (case first_check (field_sizes pf) pf of
        Inl e \<Rightarrow> Inl e
      | Inr pf' \<Rightarrow>
          (case second_check (field_sizes pf') of
             Some e \<Rightarrow> Inl e
           | None \<Rightarrow> Inr pf'))"

text \<open>The last validation, on the record about to be sent: every field but
  \<open>document_content\<close>, the record id among them.\<close>

definition record_violations :: "stored_record \<Rightarrow> string list" where
  "record_violations r =
     map fst (filter (\<lambda>(k, n). 4096 < n)
       [(''_id'', utf8_length (rec_id r)),
        (''credential_id'', utf8_length (credential_id r)),
        (''proof_hash'', utf8_length (proof_hash r)),
        (''file_name'', utf8_length (file_name r)),
        (''file_type'', utf8_length (file_type r)),
        (''size_bytes'', length (nat_to_string (size_bytes r))),
        (''stored_at'', utf8_length (stored_at r))])"

definition collectionId :: string where
  "collectionId = ''3689f760-a7ea-4acb-813a-4e43495180d9''"

text \<open>Every error that leaves \<open>storeCredentialReal\<close> is a plain \<open>Error\<close> whose message
  starts with \<open>NillionDB storage failed\<close>; the model shortens the rest of the message.\<close>

definition storage_failed :: "error \<Rightarrow> error" where
  "storage_failed e =
     (case e of
        Error msg \<Rightarrow> Error (''NillionDB storage failed: '' @ msg)
      | Unmodelled \<Rightarrow> Unmodelled
      | _ \<Rightarrow> Error ''NillionDB storage failed'')"

text \<open>
  \<open>storeCredentialReal(credentialId, data, metadata)\<close> for \<open>data\<close> a Buffer, which is
  what the upload route passes. \<open>recordId\<close> is the fresh \<open>uuidv4()\<close> and \<open>now\<close> the
  time stamp \<open>new Date().toISOString()\<close>.
\<close>

definition storeCredentialReal ::
  "sdk_env \<Rightarrow> string \<Rightarrow> string \<Rightarrow> string \<Rightarrow> buffer \<Rightarrow> store_metadata \<Rightarrow> nillion_state
     \<Rightarrow> (error + string) \<times> nillion_state" where
  "storeCredentialReal env recordId now credentialId data metadata st =
     (let st1 = log_call ReadCollection st;
          exists = (read_collection_ok env \<and> collection_created st);
          st2 = (if exists then st1 else log_call CreateCollection st1)
      in if \<not> exists \<and> \<not> create_collection_ok env
         then (Inl (storage_failed (Error ''Failed to create NillionDB collection'')), st2)
         else
           (let st3 = st2\<lparr>collection_created := True\<rparr> in
            case utf8_decode data of
              None \<Rightarrow> (Inl Unmodelled, st3)
            | Some dataString \<Rightarrow>
                (case validate_plaintext
                        \<lparr>pf_credential_id = credentialId,
                         pf_proof_hash = or_else (meta_proofHash metadata) ''unknown'',
                         pf_file_name = or_else (meta_fileName metadata) ''document.txt'',
                         pf_file_type = or_else (meta_fileType metadata) ''text/plain'',
                         pf_size_bytes = (if meta_sizeBytes metadata \<noteq> 0
                                          then meta_sizeBytes metadata else length dataString),
                         pf_stored_at = now\<rparr> of
                   Inl e \<Rightarrow> (Inl (storage_failed e), st3)
                 | Inr pf \<Rightarrow>
                     (let credentialRecord =
                            \<lparr>rec_id = recordId,
                             credential_id = pf_credential_id pf,
                             proof_hash = pf_proof_hash pf,
                             file_name = pf_file_name pf,
                             file_type = pf_file_type pf,
                             size_bytes = pf_size_bytes pf,
                             stored_at = pf_stored_at pf,
                             document_content = dataString\<rparr>
                      in if record_violations credentialRecord \<noteq> []
                         then (Inl (storage_failed
                                 (Error ''One or more plaintext fields exceed 4096 bytes'')), st3)
                         else if dataString = []
                         then (Inl (storage_failed
                                 (Error ''document_content missing required property %allot'')), st3)
                         else
                           (let st4 = log_call CreateStandardData st3 in
                            if create_data_ok env
                            then (Inr collectionId,
                                  st4\<lparr>records := records st4 @ [credentialRecord]\<rparr>)
                            else (Inl (storage_failed (Error ''createStandardData failed'')), st4))))))"

text \<open>\<open>storeCredential\<close>: no SDK call is made without a client.\<close>

definition storeCredential ::
  "sdk_env \<Rightarrow> string \<Rightarrow> string \<Rightarrow> string \<Rightarrow> buffer \<Rightarrow> store_metadata \<Rightarrow> nillion_state
     \<Rightarrow> (error + string) \<times> nillion_state" where
  "storeCredential env recordId now credentialId data metadata st =
     (if \<not> client_ready env then (Inl (Error ''Nillion builder client not available''), st)
      else storeCredentialReal env recordId now credentialId data metadata st)"

text \<open>The \<open>total\<close> that \<open>getAllCredentials\<close> reports to \<open>GET /list\<close>: the number of
  records that \<open>findData\<close> returns, and 0 when every way of calling it throws.\<close>

definition getAllCredentials_total :: "sdk_env \<Rightarrow> nillion_state \<Rightarrow> error + nat" where
  "getAllCredentials_total env st =
     (if \<not> client_ready env then Inl (Error ''Nillion builder client not initialized'')
      else if find_data_ok env \<or> find_data_alt_ok env then Inr (length (records st))
      else Inr 0)"

section \<open>services/anchor.js: the anchor submitter\<close>

datatype anchor_kind = Blockchain | ProofHashVerification

datatype anchor_status = Pending | Verified | Confirmed | Failed

datatype tx_status = TxPending | Simulated | ProofBased

text \<open>What one \<open>client.post\<close> of \<open>sendTransaction\<close> does: it throws, or it resolves to a
  response whose \<open>data\<close> is \<open>null\<close> or \<open>undefined\<close>, another falsy value, or a body
  with its \<open>error\<close> (\<open>None\<close> when falsy) and its \<open>result\<close>.\<close>

datatype rpc_data =
    NoData
  | EmptyData
  | Body "string option" "string option"

datatype rpc_reply = Throws | Replies rpc_data

text \<open>What one poll of \<open>getTransactionReceipt\<close> does. A receipt carries its \<open>status\<close>
  and its \<open>blockNumber\<close> as the hex strings of JSON-RPC; an empty block number
  stands for a missing one.\<close>

datatype poll_reply =
    PollThrows
  | NoReceipt
  | Receipt (receipt_status: string) (receipt_blockNumber: string)

text \<open>The numbers that \<open>parseInt\<close> can return: \<open>NaN\<close>, an integer that a double holds
  exactly, \<open>-0\<close> and the two infinities.\<close>

datatype js_number = NaN | Finite int | NegZero | PosInfinity | NegInfinity

record tx_result =
  tx_txHash :: "string option"
  tx_status :: tx_status
  tx_anchorType :: anchor_kind

record anchor_data =
  anchor_id :: string
  anchor_credential_id :: string
  anchor_proof_hash :: string
  anchor_tx_hash :: "string option"
  anchor_type :: anchor_kind
  anchor_status :: anchor_status
  anchor_created_at :: string
  anchor_block_height :: "js_number option"

record anchor_env =
  private_key :: string
  network :: string
  nonce_reply :: "nat option"
  rpc :: "string \<Rightarrow> rpc_reply"
  receipts :: "nat \<Rightarrow> poll_reply"

type_synonym anchor_store = "string \<rightharpoonup> anchor_data"

text \<open>\<open>anchorStore.set(proofHash, anchorData)\<close> and \<open>anchorStore.get(proofHash) || null\<close>.\<close>

definition storeAnchor :: "string \<Rightarrow> anchor_data \<Rightarrow> anchor_store \<Rightarrow> anchor_store" where
  "storeAnchor proofHash anchorData store = store(proofHash \<mapsto> anchorData)"

definition getAnchorByProofHash :: "anchor_store \<Rightarrow> string \<Rightarrow> anchor_data option" where
  "getAnchorByProofHash store proofHash = store proofHash"

definition generateAddress :: "string \<Rightarrow> string" where
  "generateAddress privateKey = ''nil'' @ take 40 (sha256Hex privateKey)"

definition getChainId :: "string \<Rightarrow> int" where
  "getChainId net = (if net = ''mainnet'' then 1 else 1337)"

function nat_to_hex :: "nat \<Rightarrow> string" where
  "nat_to_hex n =
     (if n < 16 then [hexdigit n] else nat_to_hex (n div 16) @ [hexdigit (n mod 16)])"
  by pat_completeness auto
termination
  by (relation "measure id") auto

declare nat_to_hex.simps [simp del]

text \<open>\<open>Buffer.from(s, 'hex').toString('hex')\<close>: the leading pairs of hex digits, in
  lower case.\<close>

fun hex_roundtrip :: "string \<Rightarrow> string" where
  "hex_roundtrip (a # b # rest) =
     (case (hex_value a, hex_value b) of
        (Some x, Some y) \<Rightarrow> hexdigit x # hexdigit y # hex_roundtrip rest
      | _ \<Rightarrow> [])"
| "hex_roundtrip _ = []"

text \<open>\<open>createTransaction\<close> with the default gas price and gas limit; the result is the
  \<open>hash\<close> field, the SHA-256 of the serialised transaction.\<close>

definition createTransaction :: "string \<Rightarrow> string \<Rightarrow> string \<Rightarrow> string \<Rightarrow> nat \<Rightarrow> string" where
  "createTransaction net from to proofHash nonce =
     (case stringify (JObj
          [(''from'', JStr from), (''to'', JStr to), (''value'', JStr ''0''),
           (''data'', JStr (''0x'' @ hex_roundtrip proofHash)),
           (''nonce'', JStr (''0x'' @ nat_to_hex nonce)),
           (''gasPrice'', JStr (''0x'' @ nat_to_hex 1000000000)),
           (''gasLimit'', JStr (''0x'' @ nat_to_hex 21000)),
           (''chainId'', JNum (getChainId net))]) of
        Some serialised \<Rightarrow> sha256Hex serialised
      | None \<Rightarrow> sha256Hex [])"

text \<open>The loop of \<open>sendTransaction\<close> over the method names: \<open>response\<close> is the last
  response that arrived, and the loop stops at the first one without an error.\<close>

definition rpc_methods :: "string list" where
  "rpc_methods = [''nil_sendRawTransaction'', ''nilchain_sendTransaction'',
                  ''eth_sendRawTransaction'', ''sendTransaction'']"

fun try_methods :: "(string \<Rightarrow> rpc_reply) \<Rightarrow> string list \<Rightarrow> rpc_data option \<Rightarrow> rpc_data option" where
  "try_methods post [] response = response"
| "try_methods post (m # ms) response =
     (case post m of
        Throws \<Rightarrow> try_methods post ms response
      | Replies d \<Rightarrow>
          (case d of
             Body None res \<Rightarrow> Some d
           | _ \<Rightarrow> try_methods post ms (Some d)))"

text \<open>
  The replies after which \<open>sendTransaction\<close> falls back: the post threw, so that no
  response arrived; the response has no data (\<open>null\<close> or \<open>undefined\<close>), so that the
  read of \<open>response.data.error\<close> throws; or its body carries an \<open>error\<close>. The other two
  are not among them. A response whose data is falsy without being \<open>null\<close> (an empty
  body) sends the loop on to the next method like a failure, but the test after the
  loop does not see it; a body without \<open>error\<close> ends the loop as a transaction that
  was sent, with or without a \<open>result\<close>.
\<close>

definition fallback_reply :: "rpc_reply \<Rightarrow> bool" where
  "fallback_reply reply =
     (case reply of
        Throws \<Rightarrow> True
      | Replies NoData \<Rightarrow> True
      | Replies EmptyData \<Rightarrow> False
      | Replies (Body None res) \<Rightarrow> False
      | Replies (Body (Some err) res) \<Rightarrow> True)"

text \<open>\<open>sendTransaction({signature, proofHash})\<close>. A response whose data is \<open>null\<close> makes
  the read of \<open>response.data.error\<close> throw, which the outer \<open>catch\<close> turns into the
  proof-based result; \<open>now\<close> stands for \<open>Date.now().toString()\<close>.\<close>

definition sendTransaction ::
  "(string \<Rightarrow> rpc_reply) \<Rightarrow> string \<Rightarrow> string \<Rightarrow> string \<Rightarrow> error + tx_result" where
  "sendTransaction post now signature proofHash =
     (case try_methods post rpc_methods None of
        None \<Rightarrow>
          Inr \<lparr>tx_txHash = Some (sha256Hex (or_else proofHash signature)),
               tx_status = Simulated, tx_anchorType = ProofHashVerification\<rparr>
      | Some (Body (Some err) res) \<Rightarrow>
          Inr \<lparr>tx_txHash = Some (sha256Hex (or_else proofHash signature)),
               tx_status = Simulated, tx_anchorType = ProofHashVerification\<rparr>
      | Some NoData \<Rightarrow>
          Inr \<lparr>tx_txHash = Some (sha256Hex (or_else proofHash (or_else signature now))),
               tx_status = ProofBased, tx_anchorType = ProofHashVerification\<rparr>
      | Some EmptyData \<Rightarrow>
          Inr \<lparr>tx_txHash = None, tx_status = TxPending, tx_anchorType = Blockchain\<rparr>
      | Some (Body None res) \<Rightarrow>
          Inr \<lparr>tx_txHash = res, tx_status = TxPending, tx_anchorType = Blockchain\<rparr>)"

text \<open>
  \<open>waitForConfirmation\<close>: at most 30 polls of \<open>getTransactionReceipt\<close>. A receipt
  counts once its block number is there; its status \<open>0x1\<close> is success. A poll that
  throws ends the wait only at the last attempt; after the last attempt without a
  receipt the wait times out.
\<close>


record confirmation =
  conf_success :: bool
  conf_blockNumber :: string

fun waitLoop :: "(nat \<Rightarrow> poll_reply) \<Rightarrow> nat \<Rightarrow> nat \<Rightarrow> error + confirmation" where
  "waitLoop poll 0 attempt = Inl (Error ''Transaction confirmation timeout after 30 attempts'')"
| "waitLoop poll (Suc left) attempt =
     (case poll attempt of
        PollThrows \<Rightarrow> if left = 0 then Inl (Error ''getTransactionReceipt failed'')
                      else waitLoop poll left (Suc attempt)
      | NoReceipt \<Rightarrow> waitLoop poll left (Suc attempt)
      | Receipt status blockNumber \<Rightarrow>
          if blockNumber \<noteq> []
          then Inr \<lparr>conf_success = (status = ''0x1''), conf_blockNumber = blockNumber\<rparr>
          else waitLoop poll left (Suc attempt))"

definition waitForConfirmation :: "(nat \<Rightarrow> poll_reply) \<Rightarrow> error + confirmation" where
  "waitForConfirmation poll = waitLoop poll 30 1"

text \<open>
  \<open>parseInt(text, 16)\<close> of a string of code units below 256: leading white space is
  dropped, then one sign, then one prefix \<open>0x\<close> or \<open>0X\<close>; the hex digits that follow,
  up to the first other character, are the value, and without any digit the result is
  \<open>NaN\<close>. The value becomes a double: the nearest one, the even one of two that are
  equally near, and an infinity from \<open>2 ^ 1024\<close> on.
\<close>

definition is_js_space :: "char \<Rightarrow> bool" where
  "is_js_space c =
     (c = CHR 0x09 \<or> c = CHR 0x0A \<or> c = CHR 0x0B \<or> c = CHR 0x0C \<or> c = CHR 0x0D
      \<or> c = CHR 0x20 \<or> c = CHR 0xA0)"

function bit_length :: "nat \<Rightarrow> nat" where
  "bit_length n = (if n = 0 then 0 else Suc (bit_length (n div 2)))"
  by pat_completeness auto
termination
  by (relation "measure id") auto

declare bit_length.simps [simp del]

definition to_double :: "nat \<Rightarrow> nat option" where
  "to_double n =
     (if n < 2 ^ 53 then Some n
      else
        (let e = bit_length n - 53;
             q = n div 2 ^ e;
             r = n mod 2 ^ e;
             h = 2 ^ (e - 1);
             q' = (if h < r \<or> (r = h \<and> odd q) then q + 1 else q)
         in if 2 ^ 1024 \<le> q' * 2 ^ e then None else Some (q' * 2 ^ e)))"

definition hex_digits_value :: "string \<Rightarrow> nat" where
  "hex_digits_value ds =
     foldl (\<lambda>a c. 16 * a + (case hex_value c of Some d \<Rightarrow> d | None \<Rightarrow> 0)) 0 ds"

definition parseInt16 :: "string \<Rightarrow> js_number" where
  "parseInt16 text =
     (let s = dropWhile is_js_space text;
          negative = (take 1 s = ''-'');
          s1 = (if take 1 s = ''+'' \<or> take 1 s = ''-'' then drop 1 s else s);
          s2 = (if take 2 s1 = ''0x'' \<or> take 2 s1 = ''0X'' then drop 2 s1 else s1);
          ds = takeWhile (\<lambda>c. hex_value c \<noteq> None) s2
      in if ds = [] then NaN
         else if hex_digits_value ds = 0 then (if negative then NegZero else Finite 0)
         else
           (case to_double (hex_digits_value ds) of
              None \<Rightarrow> if negative then NegInfinity else PosInfinity
            | Some m \<Rightarrow> Finite (if negative then - int m else int m)))"

text \<open>The two callbacks on the promise of \<open>waitForConfirmation\<close>: they change the anchor
  record in place and store it under its proof hash again.\<close>

definition confirmation_update :: "error + confirmation \<Rightarrow> anchor_data \<Rightarrow> anchor_data" where
  "confirmation_update outcome anchorData =
     (case outcome of
        Inr c \<Rightarrow> anchorData\<lparr>anchor_status := (if conf_success c then Confirmed else Failed),
                              anchor_block_height := Some (parseInt16 (conf_blockNumber c))\<rparr>
      | Inl e \<Rightarrow> anchorData\<lparr>anchor_status := Failed\<rparr>)"

record anchor_result =
  res_anchorId :: string
  res_txHash :: "string option"
  res_proofHash :: string
  res_status :: anchor_status
  res_anchorType :: anchor_kind
  res_anchor :: anchor_data

text \<open>
  \<open>anchorCredential({credentialId, proofHash, userId})\<close> up to its \<open>return\<close>: the
  record is stored once, with the outcome of the submission. \<open>lookup\<close> is the outcome
  of \<open>getCredentialByProofHash\<close>, \<open>anchorId\<close> the fresh \<open>uuidv4()\<close>.
\<close>

definition anchorCredential ::
  "anchor_env \<Rightarrow> (error + credential option) \<Rightarrow> string \<Rightarrow> string \<Rightarrow> string \<Rightarrow> string
     \<Rightarrow> anchor_store \<Rightarrow> (error + anchor_result) \<times> anchor_store" where
  "anchorCredential env lookup anchorId now credentialId proofHash store =
     (case lookup of
        Inl e \<Rightarrow> (Inl e, store)
      | Inr None \<Rightarrow> (Inl (Error ''Credential with proof hash not found in NillionDB''), store)
      | Inr (Some cred) \<Rightarrow>
          (let fromAddress = generateAddress (private_key env);
               nonce = (case nonce_reply env of Some n \<Rightarrow> n | None \<Rightarrow> 0);
               txHash = createTransaction (network env) fromAddress fromAddress proofHash nonce;
               anchorData =
                 (case sendTransaction (rpc env) now txHash proofHash of
                    Inr txResult \<Rightarrow>
                      \<lparr>anchor_id = anchorId, anchor_credential_id = credentialId,
                       anchor_proof_hash = proofHash, anchor_tx_hash = tx_txHash txResult,
                       anchor_type = tx_anchorType txResult,
                       anchor_status =
                         (if tx_anchorType txResult = ProofHashVerification
                             \<or> tx_status txResult = Simulated \<or> tx_status txResult = ProofBased
                          then Verified else Pending),
                       anchor_created_at = now, anchor_block_height = None\<rparr>
                  | Inl txError \<Rightarrow>
                      \<lparr>anchor_id = anchorId, anchor_credential_id = credentialId,
                       anchor_proof_hash = proofHash, anchor_tx_hash = Some (sha256Hex proofHash),
                       anchor_type = ProofHashVerification, anchor_status = Verified,
                       anchor_created_at = now, anchor_block_height = None\<rparr>)
           in (Inr \<lparr>res_anchorId = anchorId, res_txHash = anchor_tx_hash anchorData,
                     res_proofHash = proofHash, res_status = anchor_status anchorData,
                     res_anchorType = anchor_type anchorData, res_anchor = anchorData\<rparr>,
               storeAnchor proofHash anchorData store)))"

text \<open>The anchoring once its detached confirmation has run as well: only a pending
  blockchain anchor waits for a confirmation.\<close>

definition anchor_settled ::
  "anchor_env \<Rightarrow> (error + credential option) \<Rightarrow> string \<Rightarrow> string \<Rightarrow> string \<Rightarrow> string
     \<Rightarrow> anchor_store \<Rightarrow> anchor_store" where
  "anchor_settled env lookup anchorId now credentialId proofHash store =
     (case anchorCredential env lookup anchorId now credentialId proofHash store of
        (Inl e, store') \<Rightarrow> store'
      | (Inr r, store') \<Rightarrow>
          if res_anchorType r = Blockchain \<and> res_status r = Pending
          then storeAnchor proofHash
                 (confirmation_update (waitForConfirmation (receipts env)) (res_anchor r)) store'
          else store')"

section \<open>routes/credentials.js: POST /upload\<close>

record upload_file =
  originalname :: string
  mimetype :: string
  buffer :: buffer

text \<open>The fields of the request that the handler reads; \<open>None\<close> is a field that is
  not there. The size that multer reports for a file in memory is that of its buffer.\<close>

record upload_request =
  req_title :: "string option"
  req_clientProofHash :: "string option"
  req_jsonData :: "string option"
  req_file :: "upload_file option"

record payload =
  pl_proofHash :: string
  pl_fileData :: buffer
  pl_fileName :: string
  pl_fileType :: string
  pl_sizeBytes :: nat

definition truthy :: "string option \<Rightarrow> bool" where
  "truthy s = (case s of None \<Rightarrow> False | Some x \<Rightarrow> x \<noteq> [])"

definition endsWith :: "string \<Rightarrow> string \<Rightarrow> bool" where
  "endsWith s suffix = (length suffix \<le> length s \<and> drop (length s - length suffix) s = suffix)"

definition startsWith :: "string \<Rightarrow> string \<Rightarrow> bool" where
  "startsWith s prefix = (take (length prefix) s = prefix)"

definition detect_fileType :: "string \<Rightarrow> string \<Rightarrow> string" where
  "detect_fileType detectedMime fileName =
     (if detectedMime = ''application/json'' \<or> endsWith fileName ''.json''
      then ''application/json''
      else if detectedMime = ''text/plain'' \<or> endsWith fileName ''.txt''
              \<or> endsWith fileName ''.text'' \<or> startsWith detectedMime ''text/''
      then ''text/plain''
      else or_else detectedMime ''text/plain'')"

text \<open>
  The first part of the handler, up to the proof hash. With \<open>jsonData\<close> the handler
  parses the field and passes the parsed value to \<open>computeJsonProofHash\<close>, which
  parses its argument again; whatever is thrown there becomes the
  \<open>ValidationError\<close>. Without it the file is hashed as bytes.
\<close>

definition upload_payload :: "upload_request \<Rightarrow> error + payload" where
  "upload_payload req =
     (if req_file req = None \<and> \<not> truthy (req_jsonData req)
      then Inl (ValidationError ''Either file or jsonData is required'')
      else if truthy (req_jsonData req) then
        (case JSON_parse (case req_jsonData req of Some s \<Rightarrow> s | None \<Rightarrow> []) of
           Inl Unmodelled \<Rightarrow> Inl Unmodelled
         | Inl _ \<Rightarrow> Inl (ValidationError ''Invalid JSON data'')
         | Inr jsonData \<Rightarrow>
             (case route_computeJsonProofHash jsonData of
                Inl Unmodelled \<Rightarrow> Inl Unmodelled
              | Inl _ \<Rightarrow> Inl (ValidationError ''Invalid JSON data'')
              | Inr proofHash \<Rightarrow>
                  (case stringify_pretty [] jsonData of
                     None \<Rightarrow> Inl (ValidationError ''Invalid JSON data'')
                   | Some text \<Rightarrow>
                       Inr \<lparr>pl_proofHash = proofHash,
                            pl_fileData = utf8_encode text,
                            pl_fileName =
                              (case req_title req of Some t \<Rightarrow> t | None \<Rightarrow> ''undefined'') @ ''.json'',
                            pl_fileType = ''application/json'',
                            pl_sizeBytes = length (utf8_encode text)\<rparr>)))
      else
        (case req_file req of
           None \<Rightarrow> Inl (ValidationError ''Either file or jsonData is required'')
         | Some file \<Rightarrow>
             Inr \<lparr>pl_proofHash = computeBinaryProofHash (buffer file),
                  pl_fileData = buffer file,
                  pl_fileName = originalname file,
                  pl_fileType = detect_fileType (mimetype file) (originalname file),
                  pl_sizeBytes = length (buffer file)\<rparr>))"

datatype upload_response =
    AlreadyExists (resp_credentialId: string) (resp_proofHash: string) (resp_status: string)
  | Stored (resp_credentialId: string) (resp_proofHash: string) (resp_vaultId: string)
      (resp_status: string)

text \<open>The fresh values a request draws: the \<open>uuidv4()\<close> of the user, of the credential,
  of the stored record and of the anchor, and the clock.\<close>

record fresh =
  new_userId :: string
  new_credentialId :: string
  new_recordId :: string
  new_anchorId :: string
  now :: string

text \<open>
  The handler from the client-hash check to its response. A lookup that throws is
  logged and the upload goes on; a store that throws becomes an \<open>AppError\<close> with
  status 500.
\<close>

definition upload_store ::
  "sdk_env \<Rightarrow> fresh \<Rightarrow> upload_request \<Rightarrow> payload \<Rightarrow> nillion_state
     \<Rightarrow> (error + upload_response) \<times> nillion_state" where
  "upload_store env ids req pl st =
     (if truthy (req_clientProofHash req) \<and> req_clientProofHash req \<noteq> Some (pl_proofHash pl)
      then (Inl (ValidationError ''Client proof hash does not match server computation''), st)
      else
        (case getCredentialByProofHash env (pl_proofHash pl) st of
           (Inr (Some existingCredential), st1) \<Rightarrow>
             (Inr (AlreadyExists (cred_id existingCredential)
                     (cred_proof_hash existingCredential)
                     (or_else (cred_status existingCredential) ''vaulted'')), st1)
         | (_, st1) \<Rightarrow>
             (case storeCredential env (new_recordId ids) (now ids) (new_credentialId ids)
                     (pl_fileData pl)
                     \<lparr>meta_fileName = pl_fileName pl, meta_fileType = pl_fileType pl,
                      meta_proofHash = pl_proofHash pl, meta_sizeBytes = pl_sizeBytes pl,
                      meta_userId = new_userId ids\<rparr> st1 of
                (Inr vaultId, st2) \<Rightarrow>
                  (Inr (Stored (new_credentialId ids) (pl_proofHash pl) vaultId ''vaulted''), st2)
              | (Inl Unmodelled, st2) \<Rightarrow> (Inl Unmodelled, st2)
              | (Inl vaultError, st2) \<Rightarrow>
                  (Inl (AppError ''Failed to store credential in vault'' 500), st2))))"

definition upload ::
  "sdk_env \<Rightarrow> fresh \<Rightarrow> upload_request \<Rightarrow> nillion_state
     \<Rightarrow> (error + upload_response) \<times> nillion_state" where
  "upload env ids req st =
     (case upload_payload req of
        Inl e \<Rightarrow> (Inl e, st)
      | Inr pl \<Rightarrow> upload_store env ids req pl st)"

text \<open>
  The whole request with the anchoring it starts: the response is that of \<open>upload\<close>;
  after a fresh store, and when the anchor service exists, \<open>anchorCredential\<close> runs
  detached, and what it returns or throws is only logged.
\<close>

record server_state =
  nillion :: nillion_state
  anchors :: anchor_store

definition upload_and_anchor ::
  "sdk_env \<Rightarrow> anchor_env option \<Rightarrow> fresh \<Rightarrow> upload_request \<Rightarrow> server_state
     \<Rightarrow> (error + upload_response) \<times> server_state" where
  "upload_and_anchor env anchorService ids req s =
     (case upload env ids req (nillion s) of
        (Inr (Stored credentialId proofHash vaultId status), st) \<Rightarrow>
          (case anchorService of
             None \<Rightarrow> (Inr (Stored credentialId proofHash vaultId status), s\<lparr>nillion := st\<rparr>)
           | Some aenv \<Rightarrow>
               (case getCredentialByProofHash env proofHash st of
                  (lookup, st') \<Rightarrow>
                    (Inr (Stored credentialId proofHash vaultId status),
                     \<lparr>nillion = st',
                      anchors = anchor_settled aenv lookup (new_anchorId ids) (now ids)
                                  credentialId proofHash (anchors s)\<rparr>)))
      | (response, st) \<Rightarrow> (response, s\<lparr>nillion := st\<rparr>))"

section \<open>The two verify routes\<close>

text \<open>\<open>Joi.string().hex().length(64).required()\<close>.\<close>

definition valid_proofHash :: "string option \<Rightarrow> bool" where
  "valid_proofHash h =
     (case h of
        None \<Rightarrow> False
      | Some s \<Rightarrow> length s = 64 \<and> list_all (\<lambda>c. hex_value c \<noteq> None) s)"

text \<open>
  routes/credentials.js, \<open>POST /verify\<close>. Neither of its responses has a field
  \<open>exists\<close>: not found is \<open>{success: false, message: 'Credential not found', proofHash}\<close>.
  A lookup that throws is logged and counts as not found.
\<close>

datatype verify_response =
    VerifyNotFound string
  | VerifyFound credential "anchor_data option"

definition verify ::
  "sdk_env \<Rightarrow> string option \<Rightarrow> server_state \<Rightarrow> (error + verify_response) \<times> server_state" where
  "verify env body_proofHash s =
     (if \<not> valid_proofHash body_proofHash then (Inl (ValidationError ''Invalid request data''), s)
      else
        (let proofHash = (case body_proofHash of Some h \<Rightarrow> h | None \<Rightarrow> []) in
         case getCredentialByProofHash env proofHash (nillion s) of
           (Inr (Some cred), st) \<Rightarrow>
             (Inr (VerifyFound cred (getAnchorByProofHash (anchors s) proofHash)),
              s\<lparr>nillion := st\<rparr>)
         | (_, st) \<Rightarrow> (Inr (VerifyNotFound proofHash), s\<lparr>nillion := st\<rparr>)))"

text \<open>
  routes/verification.js, \<open>POST /verify-proof\<close>. Not found is
  \<open>{success: false, message: 'Credential not found', proofHash, exists: false}\<close>; a
  lookup that throws goes to the error handler. The credential that the store returns
  has no \<open>anchors\<close>, so a found credential is reported with no anchor and with
  \<open>proof_hash_matches\<close> the comparison of the stored hash with the requested one.
\<close>

datatype verify_proof_response =
    ProofNotFound string
  | ProofFound credential bool

definition response_exists :: "verify_proof_response \<Rightarrow> bool" where
  "response_exists r = (case r of ProofNotFound h \<Rightarrow> False | ProofFound c m \<Rightarrow> True)"

definition verify_proof ::
  "sdk_env \<Rightarrow> string option \<Rightarrow> server_state
     \<Rightarrow> (error + verify_proof_response) \<times> server_state" where
  "verify_proof env body_proofHash s =
     (if \<not> valid_proofHash body_proofHash then (Inl (ValidationError ''Invalid request data''), s)
      else
        (let proofHash = (case body_proofHash of Some h \<Rightarrow> h | None \<Rightarrow> []) in
         case getCredentialByProofHash env proofHash (nillion s) of
           (Inl e, st) \<Rightarrow> (Inl e, s\<lparr>nillion := st\<rparr>)
         | (Inr None, st) \<Rightarrow> (Inr (ProofNotFound proofHash), s\<lparr>nillion := st\<rparr>)
         | (Inr (Some cred), st) \<Rightarrow>
             (Inr (ProofFound cred (cred_proof_hash cred = proofHash)), s\<lparr>nillion := st\<rparr>)))"

section \<open>Sample environments and states\<close>

text \<open>An environment in which every SDK call succeeds, one in which the client was
  never initialised, the empty store, and the fresh values of two requests.\<close>

definition healthy_env :: sdk_env where
  "healthy_env =
     \<lparr>client_ready = True, read_collection_ok = True, create_collection_ok = True,
      create_data_ok = True, refresh_token_ok = True, find_data_ok = True,
      find_data_alt_ok = True\<rparr>"

definition no_client_env :: sdk_env where
  "no_client_env = healthy_env\<lparr>client_ready := False\<rparr>"

definition stale_token_env :: sdk_env where
  "stale_token_env = healthy_env\<lparr>refresh_token_ok := False\<rparr>"

definition initial_state :: nillion_state where
  "initial_state = \<lparr>collection_created = False, records = [], calls = []\<rparr>"

definition initial_server :: server_state where
  "initial_server = \<lparr>nillion = initial_state, anchors = Map.empty\<rparr>"

definition first_ids :: fresh where
  "first_ids =
     \<lparr>new_userId = ''user-1'', new_credentialId = ''cred-1'', new_recordId = ''rec-1'',
      new_anchorId = ''anchor-1'', now = ''2025-01-01T00:00:00.000Z''\<rparr>"

definition second_ids :: fresh where
  "second_ids =
     \<lparr>new_userId = ''user-2'', new_credentialId = ''cred-2'', new_recordId = ''rec-2'',
      new_anchorId = ''anchor-2'', now = ''2025-01-02T00:00:00.000Z''\<rparr>"

definition hello_file :: upload_file where
  "hello_file = \<lparr>originalname = ''hello.txt'', mimetype = ''text/plain'', buffer = ''hello''\<rparr>"

definition hello_request :: upload_request where
  "hello_request =
     \<lparr>req_title = None, req_clientProofHash = None, req_jsonData = None,
      req_file = Some hello_file\<rparr>"

definition zero_hash :: string where
  "zero_hash = replicate 64 (CHR ''0'')"

text \<open>The store after the file \<open>hello\<close> was uploaded once, in the healthy environment.\<close>

definition hello_stored_state :: nillion_state where
  "hello_stored_state =
     \<lparr>collection_created = True,
      records =
        [\<lparr>rec_id = ''rec-1'', credential_id = ''cred-1'',
          proof_hash = ''2cf24dba5fb0a30e26e83b2ac5b9e29e1b161e5c1fa7425e73043362938b9824'',
          file_name = ''hello.txt'', file_type = ''text/plain'', size_bytes = 5,
          stored_at = ''2025-01-01T00:00:00.000Z'', document_content = ''hello''\<rparr>],
      calls = [RefreshRootToken, FindData, ReadCollection, CreateCollection,
               CreateStandardData]\<rparr>"

text \<open>An RPC endpoint that knows none of the methods and is unreachable for the last
  one, and an endpoint that accepts the transaction and then never answers a poll.\<close>

definition unsupported_rpc_env :: anchor_env where
  "unsupported_rpc_env =
     \<lparr>private_key = ''00'', network = ''testnet'', nonce_reply = None,
      rpc = (\<lambda>m. if m = ''sendTransaction'' then Throws
                 else Replies (Body (Some ''Method not found'') None)),
      receipts = (\<lambda>n. PollThrows)\<rparr>"

definition silent_chain_env :: anchor_env where
  "silent_chain_env =
     \<lparr>private_key = ''00'', network = ''testnet'', nonce_reply = Some 0,
      rpc = (\<lambda>m. Replies (Body None (Some ''0xabc''))),
      receipts = (\<lambda>n. PollThrows)\<rparr>"

text \<open>An endpoint that answers every request with status 200 and an empty body, so
  that no poll finds a receipt either, and one whose third poll finds the receipt of a
  successful transaction in block 16.\<close>

definition empty_reply_env :: anchor_env where
  "empty_reply_env =
     \<lparr>private_key = ''00'', network = ''testnet'', nonce_reply = None,
      rpc = (\<lambda>m. Replies EmptyData),
      receipts = (\<lambda>n. NoReceipt)\<rparr>"

definition confirming_chain_env :: anchor_env where
  "confirming_chain_env =
     \<lparr>private_key = ''00'', network = ''testnet'', nonce_reply = Some 0,
      rpc = (\<lambda>m. Replies (Body None (Some ''0xabc''))),
      receipts = (\<lambda>n. if n < 3 then NoReceipt else Receipt ''0x1'' ''0x10'')\<rparr>"

definition hello_hash :: string where
  "hello_hash = ''2cf24dba5fb0a30e26e83b2ac5b9e29e1b161e5c1fa7425e73043362938b9824''"

definition hello_credential :: credential where
  "hello_credential =
     \<lparr>cred_id = ''cred-1'', cred_proof_hash = hello_hash, cred_file_name = ''hello.txt'',
      cred_file_type = ''text/plain'', cred_size_bytes = 5,
      cred_stored_at = ''2025-01-01T00:00:00.000Z'', cred_record_id = ''rec-1'',
      cred_content = Some ''hello'', cred_status = ''vaulted''\<rparr>"

text \<open>The record of a blockchain anchor that failed, and the record of the fallback.\<close>

definition failed_hello_anchor :: anchor_data where
  "failed_hello_anchor =
     \<lparr>anchor_id = ''anchor-1'', anchor_credential_id = ''cred-1'',
      anchor_proof_hash = hello_hash, anchor_tx_hash = Some ''0xabc'',
      anchor_type = Blockchain, anchor_status = Failed,
      anchor_created_at = ''2025-01-01T00:00:01.000Z'', anchor_block_height = None\<rparr>"

definition verified_hello_anchor :: anchor_data where
  "verified_hello_anchor =
     \<lparr>anchor_id = ''anchor-2'', anchor_credential_id = ''cred-1'',
      anchor_proof_hash = hello_hash, anchor_tx_hash = Some (sha256Hex hello_hash),
      anchor_type = ProofHashVerification, anchor_status = Verified,
      anchor_created_at = ''2025-01-02T00:00:01.000Z'', anchor_block_height = None\<rparr>"

text \<open>The record of a blockchain anchor that was confirmed, and the record of an anchor
  for which the endpoint returned no transaction id, with the status of the moment.\<close>

definition confirmed_hello_anchor :: anchor_data where
  "confirmed_hello_anchor =
     \<lparr>anchor_id = ''anchor-1'', anchor_credential_id = ''cred-1'',
      anchor_proof_hash = hello_hash, anchor_tx_hash = Some ''0xabc'',
      anchor_type = Blockchain, anchor_status = Confirmed,
      anchor_created_at = ''2025-01-01T00:00:01.000Z'',
      anchor_block_height = Some (Finite 16)\<rparr>"

definition unsent_hello_anchor :: "anchor_status \<Rightarrow> anchor_data" where
  "unsent_hello_anchor status =
     \<lparr>anchor_id = ''anchor-1'', anchor_credential_id = ''cred-1'',
      anchor_proof_hash = hello_hash, anchor_tx_hash = None,
      anchor_type = Blockchain, anchor_status = status,
      anchor_created_at = ''2025-01-01T00:00:01.000Z'', anchor_block_height = None\<rparr>"





section \<open>Evaluation of the model on concrete inputs\<close>

lemmas parse_value_numeral =
  parse_value.simps(2) [of "pred_numeral k", folded numeral_eq_Suc] for k
lemmas parse_elements_numeral =
  parse_elements.simps(2) [of "pred_numeral k", folded numeral_eq_Suc] for k
lemmas parse_members_numeral =
  parse_members.simps(2) [of "pred_numeral k", folded numeral_eq_Suc] for k

lemmas parse_eval = JSON_parse_def parse_value_numeral parse_elements_numeral
  parse_members_numeral skip_ws_def is_ws_def is_digit_def hex_value_def unescape_def
  parse_number_def parse_fraction_def parse_exponent_def dec_value_def obj_define_def
  array_index_def

lemma foldl_weak_cong: "xs = ys \<Longrightarrow> a = b \<Longrightarrow> foldl f a xs = foldl f b ys"
  by simp

lemmas canon_eval = obj_assign_def obj_define_def obj_get_def array_index_def is_digit_def
  dec_value_def quote_def quote_char_def int_to_string_def nat_to_string.simps

lemma replicate_numeral_eval: "replicate (numeral k) x = x # replicate (pred_numeral k) x"
  by (simp add: numeral_eq_Suc)

lemmas sha_eval = sha256Hex_def sha256_hex_def computeBinaryProofHash_def utf8_encode_def
  utf8_char_def sha256_def pad_def be64_def blocks.simps compress_def schedule_def
  sched_step_def H256_def K256_def hex32_def hexdigit_def add32_def ssig0_def ssig1_def
  bsig0_def bsig1_def ch_def maj_def rotr_def shr_def replicate_numeral_eval

lemmas waitLoop_numeral =
  waitLoop.simps(2) [of _ "pred_numeral k", folded numeral_eq_Suc] for k

section \<open>The sample upload\<close>

lemma digest_hello:
  "computeBinaryProofHash ''hello''
     = ''2cf24dba5fb0a30e26e83b2ac5b9e29e1b161e5c1fa7425e73043362938b9824''"
  by (simp add: sha_eval)

lemma hello_payload:
  "upload_payload (hello_request\<lparr>req_clientProofHash := c\<rparr>)
   = Inr \<lparr>pl_proofHash = ''2cf24dba5fb0a30e26e83b2ac5b9e29e1b161e5c1fa7425e73043362938b9824'',
          pl_fileData = ''hello'', pl_fileName = ''hello.txt'', pl_fileType = ''text/plain'',
          pl_sizeBytes = 5\<rparr>"
  by (simp add: hello_request_def hello_file_def upload_payload_def truthy_def digest_hello
        detect_fileType_def endsWith_def startsWith_def)

lemma healthy_flags:
  "client_ready healthy_env" "refresh_token_ok healthy_env" "find_data_ok healthy_env"
  by (simp_all add: healthy_env_def)

section \<open>The confirmation of a blockchain anchor\<close>

text \<open>\<open>parseInt(text, 16)\<close> on block numbers: with and without prefix, with a sign and
  white space, without digits, and beyond \<open>2 ^ 53\<close>, where the doubles are two and
  then four apart.\<close>

lemmas parseInt16_eval = parseInt16_def is_js_space_def hex_digits_value_def hex_value_def
  to_double_def bit_length.simps Let_def

lemma parseInt16_examples:
  "parseInt16 ''0x10'' = Finite 16"
  "parseInt16 ''1f'' = Finite 31"
  "parseInt16 '' -0XFF'' = Finite (- 255)"
  "parseInt16 ''0x1g'' = Finite 1"
  "parseInt16 ''0x'' = NaN"
  "parseInt16 ''-0'' = NegZero"
  "parseInt16 ''0x1fffffffffffff'' = Finite 9007199254740991"
  "parseInt16 ''0x20000000000001'' = Finite 9007199254740992"
  "parseInt16 ''0x20000000000003'' = Finite 9007199254740996"
  by (simp_all add: parseInt16_eval)

text \<open>The callback of the confirmation: a pending blockchain anchor is stored again
  under its proof hash, \<open>confirmed\<close> after a successful receipt and \<open>failed\<close> after
  any other outcome, and is otherwise the record that was stored before.\<close>

lemma confirmation_rewrites_pending_anchor:
  assumes "anchorCredential aenv lookup anchorId t credentialId h store = (Inr r, store')"
      and "res_anchorType r = Blockchain" and "res_status r = Pending"
  shows "anchor_settled aenv lookup anchorId t credentialId h store
         = storeAnchor h (confirmation_update (waitForConfirmation (receipts aenv)) (res_anchor r))
             store'"
  using assms by (simp add: anchor_settled_def)

lemma confirmation_update_status:
  "anchor_status (confirmation_update outcome a)
   = (case outcome of
        Inr c \<Rightarrow> if conf_success c then Confirmed else Failed
      | Inl e \<Rightarrow> Failed)"
  "anchor_id (confirmation_update outcome a) = anchor_id a"
  "anchor_proof_hash (confirmation_update outcome a) = anchor_proof_hash a"
  "anchor_tx_hash (confirmation_update outcome a) = anchor_tx_hash a"
  "anchor_type (confirmation_update outcome a) = anchor_type a"
  by (simp_all add: confirmation_update_def split: sum.splits)

lemma third_poll_confirms:
  "waitForConfirmation (receipts confirming_chain_env)
   = Inr \<lparr>conf_success = True, conf_blockNumber = ''0x10''\<rparr>"
  by (simp add: waitForConfirmation_def waitLoop_numeral confirming_chain_env_def)

lemma pending_anchor_confirmed:
  "anchor_settled confirming_chain_env (Inr (Some hello_credential)) ''anchor-1''
     ''2025-01-01T00:00:01.000Z'' ''cred-1'' hello_hash Map.empty
   = [hello_hash \<mapsto> confirmed_hello_anchor]"
proof -
  have r: "rpc confirming_chain_env = (\<lambda>m. Replies (Body None (Some ''0xabc'')))"
    by (simp add: confirming_chain_env_def)
  show ?thesis
    by (simp add: anchor_settled_def anchorCredential_def sendTransaction_def rpc_methods_def
          r storeAnchor_def confirmation_update_def third_poll_confirms Let_def
          confirmed_hello_anchor_def parseInt16_examples)
qed

section \<open>C1: the canonical hash does not depend on the order of keys\<close>













section \<open>C2: the hash of the routes against the hash of the tool\<close>

lemma parse_nested:
  \<open>JSON_parse ''{"a":{"b":1}}'' = Inr (JObj [(''a'', JObj [(''b'', JNum 1)])])\<close>
  by (simp add: parse_eval)

lemma canonical_nested:
  \<open>stringify (canonicalize (JObj [(''a'', JObj [(''b'', JNum 1)])])) = Some ''{"a":{"b":1}}''\<close>
  by (simp add: canon_eval cong: foldl_weak_cong)

lemma digest_route_nested:
  \<open>sha256Hex ''{"a":{}}''
     = ''5d8171b9fc362e385a79ccd9d7992c96bcb4afca51d6278068bd1df49863b3a7''\<close>
  by (simp add: sha_eval)

lemma digest_tool_nested:
  \<open>sha256Hex ''{"a":{"b":1}}''
     = ''815ce69073bf37a71afee34156192e1d9921dfc365dc653a02516902c3a5e2e7''\<close>
  by (simp add: sha_eval)

lemma parse_object_Object: "JSON_parse ''[object Object]'' = Inl SyntaxError"
  by (simp add: parse_eval)

lemma route_hash_of_object:
  "route_computeJsonProofHash (JObj kvs) = Inl (Error ''Invalid JSON data for hashing'')"
  by (simp add: route_computeJsonProofHash_def parse_object_Object)

text \<open>
  C2 fails on the code. On the text \<open>{"a":{"b":1}}\<close> the routes' \<open>computeJsonProofHash\<close>
  serialises with the replacer \<open>["a"]\<close>, which drops the nested key \<open>b\<close>, and hashes
  \<open>{"a":{}}\<close>; the tool hashes \<open>{"a":{"b":1}}\<close>. The two digests differ. On a value
  that is already an object the routes' function throws, and the tool hashes it.
\<close>

theorem route_hash_differs_from_tool_hash:
  \<open>route_computeJsonProofHash (JStr ''{"a":{"b":1}}'')
     = Inr ''5d8171b9fc362e385a79ccd9d7992c96bcb4afca51d6278068bd1df49863b3a7''
   \<and> tool_computeJsonProofHash (JStr ''{"a":{"b":1}}'')
     = Inr ''815ce69073bf37a71afee34156192e1d9921dfc365dc653a02516902c3a5e2e7''
   \<and> route_computeJsonProofHash (JStr ''{"a":{"b":1}}'')
     \<noteq> tool_computeJsonProofHash (JStr ''{"a":{"b":1}}'')
   \<and> route_computeJsonProofHash (JObj [(''a'', JObj [(''b'', JNum 1)])])
     = Inl (Error ''Invalid JSON data for hashing'')
   \<and> tool_computeJsonProofHash (JObj [(''a'', JObj [(''b'', JNum 1)])])
     = Inr ''815ce69073bf37a71afee34156192e1d9921dfc365dc653a02516902c3a5e2e7''\<close>
proof -
  have r: \<open>route_computeJsonProofHash (JStr ''{"a":{"b":1}}'')
     = Inr ''5d8171b9fc362e385a79ccd9d7992c96bcb4afca51d6278068bd1df49863b3a7''\<close>
    by (simp add: route_computeJsonProofHash_def parse_nested property_list_def canon_eval
          digest_route_nested)
  have t: \<open>tool_computeJsonProofHash (JStr ''{"a":{"b":1}}'')
     = Inr ''815ce69073bf37a71afee34156192e1d9921dfc365dc653a02516902c3a5e2e7''\<close>
    by (simp only: tool_computeJsonProofHash_def parse_nested canonical_nested
          digest_tool_nested json.case sum.case option.case)
  have t': \<open>tool_computeJsonProofHash (JObj [(''a'', JObj [(''b'', JNum 1)])])
     = Inr ''815ce69073bf37a71afee34156192e1d9921dfc365dc653a02516902c3a5e2e7''\<close>
    by (simp only: tool_computeJsonProofHash_def canonical_nested digest_tool_nested
          json.case sum.case option.case)
  show ?thesis
    by (simp add: r t t' route_hash_of_object)
qed

section \<open>C3: an upload of JSON data\<close>

lemma parse_a1: \<open>JSON_parse ''{"a":1}'' = Inr (JObj [(''a'', JNum 1)])\<close>
  by (simp add: parse_eval)

lemma upload_rejects_every_json_object:
  assumes "JSON_parse text = Inr (JObj kvs)" and "text \<noteq> []"
  shows "upload env ids
           \<lparr>req_title = t, req_clientProofHash = c, req_jsonData = Some text, req_file = f\<rparr> st
         = (Inl (ValidationError ''Invalid JSON data''), st)"
  using assms
  by (simp add: upload_def upload_payload_def truthy_def route_hash_of_object)

text \<open>
  C3 fails on the code. The field \<open>jsonData = {"a":1}\<close> is valid JSON, and the handler
  answers with \<open>ValidationError('Invalid JSON data')\<close>, whatever the store does: it
  passes the parsed object to \<open>computeJsonProofHash\<close>, whose own \<open>JSON.parse\<close> reads
  the object as the text \<open>[object Object]\<close>. Nothing is written.
\<close>

theorem upload_rejects_json_object:
  \<open>upload env ids
      \<lparr>req_title = Some ''doc'', req_clientProofHash = None,
       req_jsonData = Some ''{"a":1}'', req_file = None\<rparr> st
   = (Inl (ValidationError ''Invalid JSON data''), st)\<close>
  by (simp add: upload_def upload_payload_def truthy_def parse_a1 route_hash_of_object)

section \<open>C4: the hashing path of an uploaded file\<close>

lemma upload_payload_file:
  "upload_payload \<lparr>req_title = t, req_clientProofHash = c, req_jsonData = None, req_file = Some f\<rparr>
   = Inr \<lparr>pl_proofHash = computeBinaryProofHash (buffer f), pl_fileData = buffer f,
          pl_fileName = originalname f,
          pl_fileType = detect_fileType (mimetype f) (originalname f),
          pl_sizeBytes = length (buffer f)\<rparr>"
  by (simp add: upload_payload_def truthy_def)

lemma decode_ba: \<open>utf8_decode ''{"b":1,"a":2}'' = Some ''{"b":1,"a":2}''\<close>
  by simp

lemma parse_ba:
  \<open>JSON_parse ''{"b":1,"a":2}'' = Inr (JObj [(''b'', JNum 1), (''a'', JNum 2)])\<close>
  by (simp add: parse_eval)

lemma canonical_ba:
  \<open>stringify (canonicalize (JObj [(''b'', JNum 1), (''a'', JNum 2)])) = Some ''{"a":2,"b":1}''\<close>
  by (simp add: canon_eval cong: foldl_weak_cong)

lemma digest_ab:
  \<open>sha256Hex ''{"a":2,"b":1}''
     = ''d3626ac30a87e6f7a6428233b3c68299976865fa5508e4267c5415c76af7a772''\<close>
  by (simp add: sha_eval)

lemma digest_ba_bytes:
  \<open>computeBinaryProofHash ''{"b":1,"a":2}''
     = ''a1d46c3cdb4e5795c8d637f80daeb578ebb1a9a65dc1ed5f11f51794c3c89f3a''\<close>
  by (simp add: sha_eval)

text \<open>
  C4 fails on the code. The upload route never tries to parse a file: a request with
  a file and no \<open>jsonData\<close> gets the SHA-256 of the bytes. For the file whose bytes are
  the valid JSON text \<open>{"b":1,"a":2}\<close> that is \<open>a1d46c...\<close>, where
  \<open>computeFileProofHash\<close> of tools/hash.js, which does try the parse, gives the
  structured hash \<open>d3626a...\<close> of \<open>{"a":2,"b":1}\<close>.
\<close>

theorem upload_hashes_json_file_as_bytes:
  \<open>map_sum id pl_proofHash
      (upload_payload \<lparr>req_title = None, req_clientProofHash = None, req_jsonData = None,
         req_file = Some \<lparr>originalname = ''data.json'', mimetype = ''application/json'',
                           buffer = ''{"b":1,"a":2}''\<rparr>\<rparr>)
     = Inr ''a1d46c3cdb4e5795c8d637f80daeb578ebb1a9a65dc1ed5f11f51794c3c89f3a''
   \<and> computeFileProofHash ''{"b":1,"a":2}''
     = Inr ''d3626ac30a87e6f7a6428233b3c68299976865fa5508e4267c5415c76af7a772''\<close>
proof -
  have \<open>computeFileProofHash ''{"b":1,"a":2}''
     = Inr ''d3626ac30a87e6f7a6428233b3c68299976865fa5508e4267c5415c76af7a772''\<close>
    by (simp only: computeFileProofHash_def decode_ba parse_ba tool_computeJsonProofHash_def
          canonical_ba digest_ab json.case sum.case option.case)
  then show ?thesis
    by (simp add: upload_payload_file digest_ba_bytes)
qed

section \<open>C5: uploading the same content again\<close>

lemma find_in_filter:
  "r \<in> set xs \<Longrightarrow> P r \<Longrightarrow> \<exists>r'. find P (filter P xs) = Some r' \<and> P r'"
  by (induction xs) auto

lemma lookup_finds_stored_record:
  assumes "client_ready env" and "refresh_token_ok env"
      and "find_data_ok env \<or> find_data_alt_ok env"
      and "r \<in> set (records st)" and "proof_hash r = h"
  shows "\<exists>r' st'. getCredentialByProofHash env h st = (Inr (Some (credential_of r')), st')
           \<and> proof_hash r' = h \<and> records st' = records st
           \<and> collection_created st' = collection_created st
           \<and> (\<exists>cs. calls st' = calls st @ cs \<and> CreateStandardData \<notin> set cs)"
proof -
  from find_in_filter [of r "records st" "\<lambda>r. proof_hash r = h"] assms(4,5)
  obtain r' where r': "find (\<lambda>r. proof_hash r = h) (filter (\<lambda>r. proof_hash r = h) (records st)) = Some r'"
      "proof_hash r' = h"
    by blast
  show ?thesis
  proof (cases "find_data_ok env")
    case True
    with assms(1,2) r' show ?thesis
      by (auto simp: getCredentialByProofHash_def find_data_def log_call_def Let_def)
  next
    case False
    with assms(1,2,3) r' show ?thesis
      by (auto simp: getCredentialByProofHash_def find_data_def log_call_def Let_def)
  qed
qed

lemma total_depends_on_records:
  "records st' = records st \<Longrightarrow> getAllCredentials_total env st' = getAllCredentials_total env st"
  by (simp add: getAllCredentials_total_def)

text \<open>
  C5, as the code has it. When the payload's proof hash has a stored record and the
  lookup of the duplicate check answers (the client is there, the token is refreshed,
  one of the two \<open>findData\<close> calls returns), the upload returns the hash and the
  status \<open>vaulted\<close> of the stored record, writes nothing, and the total that
  \<open>/list\<close> reports stays the same.
\<close>

theorem upload_idempotent_when_lookup_answers:
  assumes "upload_payload req = Inr pl"
      and "req_clientProofHash req = None \<or> req_clientProofHash req = Some (pl_proofHash pl)"
      and "client_ready env" and "refresh_token_ok env"
      and "find_data_ok env \<or> find_data_alt_ok env"
      and "r \<in> set (records st)" and "proof_hash r = pl_proofHash pl"
  shows "\<exists>cid st'. upload env ids req st
               = (Inr (AlreadyExists cid (pl_proofHash pl) ''vaulted''), st')
           \<and> records st' = records st
           \<and> (\<exists>cs. calls st' = calls st @ cs \<and> CreateStandardData \<notin> set cs)
           \<and> getAllCredentials_total env st' = getAllCredentials_total env st"
proof -
  from lookup_finds_stored_record [OF assms(3,4,5,6,7)]
  obtain r' st' where l: "getCredentialByProofHash env (pl_proofHash pl) st
        = (Inr (Some (credential_of r')), st')"
      "proof_hash r' = pl_proofHash pl" "records st' = records st"
      "\<exists>cs. calls st' = calls st @ cs \<and> CreateStandardData \<notin> set cs"
    by blast
  from assms(2) have c: "\<not> (truthy (req_clientProofHash req)
        \<and> req_clientProofHash req \<noteq> Some (pl_proofHash pl))"
    by (auto simp: truthy_def)
  have "upload env ids req st
      = (Inr (AlreadyExists (credential_id r') (pl_proofHash pl) ''vaulted''), st')"
    using assms(1) c l(1,2)
    by (simp add: upload_def upload_store_def credential_of_def or_else_def)
  with l(3,4) total_depends_on_records [OF l(3), of env] show ?thesis
    by blast
qed

lemma first_hello_upload:
  "upload healthy_env first_ids hello_request initial_state
   = (Inr (Stored ''cred-1''
             ''2cf24dba5fb0a30e26e83b2ac5b9e29e1b161e5c1fa7425e73043362938b9824''
             collectionId ''vaulted''), hello_stored_state)"
  using hello_payload [of None]
  by (simp add: hello_request_def upload_def upload_store_def truthy_def
        getCredentialByProofHash_def healthy_env_def initial_state_def first_ids_def
        find_data_def log_call_def storeCredential_def storeCredentialReal_def
        validate_plaintext_def field_sizes_def utf8_length_def utf8_encode_def utf8_char_def
        nat_to_string.simps or_else_def record_violations_def Let_def hello_stored_state_def)

theorem upload_idempotent_when_lookup_answers_witness:
  "upload_payload hello_request
     = Inr \<lparr>pl_proofHash = ''2cf24dba5fb0a30e26e83b2ac5b9e29e1b161e5c1fa7425e73043362938b9824'',
            pl_fileData = ''hello'', pl_fileName = ''hello.txt'', pl_fileType = ''text/plain'',
            pl_sizeBytes = 5\<rparr>
   \<and> req_clientProofHash hello_request = None
   \<and> client_ready healthy_env \<and> refresh_token_ok healthy_env \<and> find_data_ok healthy_env
   \<and> map proof_hash (records (snd (upload healthy_env first_ids hello_request initial_state)))
       = [''2cf24dba5fb0a30e26e83b2ac5b9e29e1b161e5c1fa7425e73043362938b9824'']
   \<and> (\<exists>cid st'.
         upload healthy_env second_ids hello_request
           (snd (upload healthy_env first_ids hello_request initial_state))
         = (Inr (AlreadyExists cid
                  ''2cf24dba5fb0a30e26e83b2ac5b9e29e1b161e5c1fa7425e73043362938b9824''
                  ''vaulted''), st')
         \<and> records st' = records (snd (upload healthy_env first_ids hello_request initial_state)))"
proof -
  let ?h = "''2cf24dba5fb0a30e26e83b2ac5b9e29e1b161e5c1fa7425e73043362938b9824''"
  let ?st1 = "snd (upload healthy_env first_ids hello_request initial_state)"
  let ?r = "\<lparr>rec_id = ''rec-1'', credential_id = ''cred-1'', proof_hash = ?h,
           file_name = ''hello.txt'', file_type = ''text/plain'', size_bytes = 5,
           stored_at = ''2025-01-01T00:00:00.000Z'', document_content = ''hello''\<rparr>"
  have n: "hello_request\<lparr>req_clientProofHash := None\<rparr> = hello_request"
    by (simp add: hello_request_def)
  have p: "upload_payload hello_request
     = Inr \<lparr>pl_proofHash = ?h, pl_fileData = ''hello'', pl_fileName = ''hello.txt'',
            pl_fileType = ''text/plain'', pl_sizeBytes = 5\<rparr>"
    using hello_payload [of None] by (simp add: n)
  have c: "req_clientProofHash hello_request = None"
    by (simp add: hello_request_def)
  have e: "client_ready healthy_env" "refresh_token_ok healthy_env" "find_data_ok healthy_env"
    by (simp_all add: healthy_env_def)
  have recs: "records ?st1 = [?r]"
    by (simp add: first_hello_upload hello_stored_state_def)
  from upload_idempotent_when_lookup_answers
         [of hello_request _ healthy_env ?r ?st1 second_ids, OF p] c e recs
  have "\<exists>cid st'. upload healthy_env second_ids hello_request ?st1
               = (Inr (AlreadyExists cid ?h ''vaulted''), st')
           \<and> records st' = records ?st1"
    by auto
  with p c e recs show ?thesis
    by simp
qed

lemma second_hello_upload_stale_token:
  "upload stale_token_env second_ids hello_request hello_stored_state
   = (Inr (Stored ''cred-2''
             ''2cf24dba5fb0a30e26e83b2ac5b9e29e1b161e5c1fa7425e73043362938b9824''
             collectionId ''vaulted''),
      \<lparr>collection_created = True,
       records =
         [\<lparr>rec_id = ''rec-1'', credential_id = ''cred-1'',
           proof_hash = ''2cf24dba5fb0a30e26e83b2ac5b9e29e1b161e5c1fa7425e73043362938b9824'',
           file_name = ''hello.txt'', file_type = ''text/plain'', size_bytes = 5,
           stored_at = ''2025-01-01T00:00:00.000Z'', document_content = ''hello''\<rparr>,
          \<lparr>rec_id = ''rec-2'', credential_id = ''cred-2'',
           proof_hash = ''2cf24dba5fb0a30e26e83b2ac5b9e29e1b161e5c1fa7425e73043362938b9824'',
           file_name = ''hello.txt'', file_type = ''text/plain'', size_bytes = 5,
           stored_at = ''2025-01-02T00:00:00.000Z'', document_content = ''hello''\<rparr>],
       calls = [RefreshRootToken, FindData, ReadCollection, CreateCollection,
                CreateStandardData, RefreshRootToken, ReadCollection, CreateStandardData]\<rparr>)"
  using hello_payload [of None]
  by (simp add: hello_request_def upload_def upload_store_def truthy_def
        getCredentialByProofHash_def stale_token_env_def healthy_env_def second_ids_def
        find_data_def log_call_def storeCredential_def storeCredentialReal_def
        validate_plaintext_def field_sizes_def utf8_length_def utf8_encode_def utf8_char_def
        nat_to_string.simps or_else_def record_violations_def Let_def hello_stored_state_def)

text \<open>
  C5 as stated fails when the lookup of the duplicate check throws. The file \<open>hello\<close>
  is stored by a first upload. At the second upload of the same bytes the token refresh
  fails, \<open>getCredentialByProofHash\<close> throws, the handler logs it and goes on: the
  same proof hash is computed, a second record is written, and \<open>/list\<close> counts 2.
\<close>

theorem upload_writes_duplicate_when_lookup_throws:
  "fst (upload healthy_env first_ids hello_request initial_state)
     = Inr (Stored ''cred-1''
              ''2cf24dba5fb0a30e26e83b2ac5b9e29e1b161e5c1fa7425e73043362938b9824''
              collectionId ''vaulted'')
   \<and> getAllCredentials_total healthy_env
        (snd (upload healthy_env first_ids hello_request initial_state)) = Inr 1
   \<and> fst (upload stale_token_env second_ids hello_request
             (snd (upload healthy_env first_ids hello_request initial_state)))
     = Inr (Stored ''cred-2''
              ''2cf24dba5fb0a30e26e83b2ac5b9e29e1b161e5c1fa7425e73043362938b9824''
              collectionId ''vaulted'')
   \<and> map proof_hash
        (records (snd (upload stale_token_env second_ids hello_request
                         (snd (upload healthy_env first_ids hello_request initial_state)))))
     = [''2cf24dba5fb0a30e26e83b2ac5b9e29e1b161e5c1fa7425e73043362938b9824'',
        ''2cf24dba5fb0a30e26e83b2ac5b9e29e1b161e5c1fa7425e73043362938b9824'']
   \<and> getAllCredentials_total healthy_env
        (snd (upload stale_token_env second_ids hello_request
                (snd (upload healthy_env first_ids hello_request initial_state)))) = Inr 2"
  by (simp add: first_hello_upload second_hello_upload_stale_token getAllCredentials_total_def
        healthy_flags)
     (simp add: hello_stored_state_def)


section \<open>C6: anchoring when the blockchain RPC fails\<close>

lemma try_methods_failed:
  assumes "\<forall>m \<in> set ms. fallback_reply (post m)"
      and "response = None \<or> response = Some NoData \<or> (\<exists>err res. response = Some (Body (Some err) res))"
  shows "try_methods post ms response = None
       \<or> try_methods post ms response = Some NoData
       \<or> (\<exists>err res. try_methods post ms response = Some (Body (Some err) res))"
  using assms
proof (induction ms arbitrary: response)
  case Nil
  then show ?case by simp
next
  case (Cons m ms)
  from Cons.prems(1) have f: "fallback_reply (post m)"
    and rest: "\<forall>m \<in> set ms. fallback_reply (post m)"
    by simp_all
  show ?case
  proof (cases "post m")
    case Throws
    with Cons.IH [OF rest Cons.prems(2)] show ?thesis by simp
  next
    case (Replies d)
    with f have d: "d = NoData \<or> (\<exists>err res. d = Body (Some err) res)"
      by (auto simp: fallback_reply_def split: rpc_data.splits option.splits)
    then have "Some d = None \<or> Some d = Some NoData \<or> (\<exists>err res. Some d = Some (Body (Some err) res))"
      by auto
    from Cons.IH [OF rest this] Replies d show ?thesis
      by auto
  qed
qed

lemma sendTransaction_falls_back:
  assumes "proofHash \<noteq> []" and "\<forall>m \<in> set rpc_methods. fallback_reply (post m)"
  shows "\<exists>s. sendTransaction post t signature proofHash
           = Inr \<lparr>tx_txHash = Some (sha256Hex proofHash), tx_status = s,
                  tx_anchorType = ProofHashVerification\<rparr>"
proof -
  from try_methods_failed [OF assms(2), of None]
  have "try_methods post rpc_methods None = None
       \<or> try_methods post rpc_methods None = Some NoData
       \<or> (\<exists>err res. try_methods post rpc_methods None = Some (Body (Some err) res))"
    by simp
  with assms(1) show ?thesis
    by (auto simp: sendTransaction_def or_else_def)
qed

lemma upload_and_anchor_response:
  "fst (upload_and_anchor env anchorService ids req s) = fst (upload env ids req (nillion s))"
  by (auto simp: upload_and_anchor_def split: prod.splits sum.splits upload_response.splits
        option.splits)

text \<open>
  Where the fallback works. When the credential was found and every call of
  \<open>sendTransaction\<close> to the RPC throws, answers with an error such as an unsupported
  method, or answers with \<open>null\<close> data, \<open>anchorCredential\<close> returns a result and stores
  the anchor under the proof hash: its kind is \<open>proof_hash_verification\<close>, its status
  \<open>verified\<close>, which no confirmation changes afterwards, and its \<open>tx_hash\<close> is the
  SHA-256 hex digest of the proof hash. Whatever the anchoring does, the response of
  the upload is that of the upload alone.
\<close>

lemma anchor_falls_back_on_recognised_failure:
  assumes "proofHash \<noteq> []"
      and "\<forall>m \<in> set rpc_methods. fallback_reply (rpc aenv m)"
  shows "(\<exists>r. anchorCredential aenv (Inr (Some cred)) anchorId t credentialId proofHash store
               = (Inr r, storeAnchor proofHash (res_anchor r) store)
            \<and> res_anchorType r = ProofHashVerification
            \<and> res_status r = Verified
            \<and> res_txHash r = Some (sha256Hex proofHash)
            \<and> anchor_type (res_anchor r) = ProofHashVerification
            \<and> anchor_status (res_anchor r) = Verified
            \<and> anchor_tx_hash (res_anchor r) = Some (sha256Hex proofHash)
            \<and> anchor_proof_hash (res_anchor r) = proofHash
            \<and> anchor_settled aenv (Inr (Some cred)) anchorId t credentialId proofHash store
               = storeAnchor proofHash (res_anchor r) store
            \<and> getAnchorByProofHash
                 (anchor_settled aenv (Inr (Some cred)) anchorId t credentialId proofHash store)
                 proofHash
               = Some (res_anchor r))
       \<and> fst (upload_and_anchor env (Some aenv) ids req s) = fst (upload env ids req (nillion s))"
proof -
  from sendTransaction_falls_back [OF assms]
  obtain st where "sendTransaction (rpc aenv) t
        (createTransaction (network aenv) (generateAddress (private_key aenv))
           (generateAddress (private_key aenv)) proofHash
           (case nonce_reply aenv of None \<Rightarrow> 0 | Some n \<Rightarrow> n))
        proofHash
      = Inr \<lparr>tx_txHash = Some (sha256Hex proofHash), tx_status = st,
             tx_anchorType = ProofHashVerification\<rparr>"
    by blast
  then show ?thesis
    by (simp add: anchorCredential_def anchor_settled_def Let_def upload_and_anchor_response
          storeAnchor_def getAnchorByProofHash_def)
qed

lemma unsupported_rpc_falls_back:
  "getAnchorByProofHash
     (anchor_settled unsupported_rpc_env (Inr (Some hello_credential)) ''anchor-2''
        ''2025-01-02T00:00:01.000Z'' ''cred-1'' hello_hash Map.empty) hello_hash
   = Some verified_hello_anchor"
  by (simp add: anchor_settled_def anchorCredential_def sendTransaction_def rpc_methods_def
        unsupported_rpc_env_def storeAnchor_def getAnchorByProofHash_def or_else_def
        hello_hash_def Let_def verified_hello_anchor_def)

text \<open>
  Where it does not. The loop of \<open>sendTransaction\<close> ends with the last response that
  arrived. When that response has an empty body, or a body with neither \<open>error\<close> nor
  \<open>result\<close>, the test \<open>!response || response.data?.error\<close> does not hold and nothing
  is thrown: the submission counts as sent, although no transaction id came back. The
  anchor is stored as a pending blockchain anchor without \<open>tx_hash\<close>, and the
  confirmation leaves it \<open>confirmed\<close> or \<open>failed\<close>, never \<open>verified\<close>.
\<close>

lemma anchor_without_transaction_id:
  assumes "try_methods (rpc aenv) rpc_methods None = Some EmptyData
         \<or> try_methods (rpc aenv) rpc_methods None = Some (Body None None)"
  shows "anchorCredential aenv (Inr (Some cred)) anchorId t credentialId proofHash store
         = (Inr \<lparr>res_anchorId = anchorId, res_txHash = None, res_proofHash = proofHash,
                 res_status = Pending, res_anchorType = Blockchain,
                 res_anchor =
                   \<lparr>anchor_id = anchorId, anchor_credential_id = credentialId,
                    anchor_proof_hash = proofHash, anchor_tx_hash = None,
                    anchor_type = Blockchain, anchor_status = Pending,
                    anchor_created_at = t, anchor_block_height = None\<rparr>\<rparr>,
            storeAnchor proofHash
              \<lparr>anchor_id = anchorId, anchor_credential_id = credentialId,
               anchor_proof_hash = proofHash, anchor_tx_hash = None,
               anchor_type = Blockchain, anchor_status = Pending,
               anchor_created_at = t, anchor_block_height = None\<rparr> store)"
    and "\<exists>a. getAnchorByProofHash
                (anchor_settled aenv (Inr (Some cred)) anchorId t credentialId proofHash store)
                proofHash = Some a
             \<and> anchor_type a = Blockchain \<and> anchor_tx_hash a = None
             \<and> (anchor_status a = Confirmed \<or> anchor_status a = Failed)"
proof -
  from assms show a: "anchorCredential aenv (Inr (Some cred)) anchorId t credentialId proofHash
      store
         = (Inr \<lparr>res_anchorId = anchorId, res_txHash = None, res_proofHash = proofHash,
                 res_status = Pending, res_anchorType = Blockchain,
                 res_anchor =
                   \<lparr>anchor_id = anchorId, anchor_credential_id = credentialId,
                    anchor_proof_hash = proofHash, anchor_tx_hash = None,
                    anchor_type = Blockchain, anchor_status = Pending,
                    anchor_created_at = t, anchor_block_height = None\<rparr>\<rparr>,
            storeAnchor proofHash
              \<lparr>anchor_id = anchorId, anchor_credential_id = credentialId,
               anchor_proof_hash = proofHash, anchor_tx_hash = None,
               anchor_type = Blockchain, anchor_status = Pending,
               anchor_created_at = t, anchor_block_height = None\<rparr> store)"
    by (auto simp: anchorCredential_def sendTransaction_def Let_def)
  show "\<exists>a. getAnchorByProofHash
                (anchor_settled aenv (Inr (Some cred)) anchorId t credentialId proofHash store)
                proofHash = Some a
             \<and> anchor_type a = Blockchain \<and> anchor_tx_hash a = None
             \<and> (anchor_status a = Confirmed \<or> anchor_status a = Failed)"
    by (cases "waitForConfirmation (receipts aenv)")
       (simp_all add: anchor_settled_def a storeAnchor_def getAnchorByProofHash_def
          confirmation_update_def)
qed

lemma empty_replies_end_the_loop:
  "try_methods (rpc empty_reply_env) rpc_methods None = Some EmptyData"
  by (simp add: empty_reply_env_def rpc_methods_def)

lemma no_receipt_times_out:
  "waitForConfirmation (receipts empty_reply_env)
   = Inl (Error ''Transaction confirmation timeout after 30 attempts'')"
  by (simp add: waitForConfirmation_def waitLoop_numeral empty_reply_env_def)

text \<open>
  C6 fails on the code. The RPC endpoint answers each of the four method calls with
  status 200 and an empty body, for the credential of the file \<open>hello\<close>, which is
  stored. \<open>anchorCredential\<close> returns a pending blockchain anchor without transaction
  id and stores it; no receipt arrives, the confirmation times out, and the stored
  record ends \<open>failed\<close>. The claim asks for a \<open>verified\<close> record of kind
  \<open>proof_hash_verification\<close> whose \<open>tx_hash\<close> is the SHA-256 of the proof hash.
\<close>

theorem empty_rpc_reply_leaves_anchor_unverified:
  "rpc empty_reply_env ''nil_sendRawTransaction'' = Replies EmptyData
   \<and> rpc empty_reply_env ''nilchain_sendTransaction'' = Replies EmptyData
   \<and> rpc empty_reply_env ''eth_sendRawTransaction'' = Replies EmptyData
   \<and> rpc empty_reply_env ''sendTransaction'' = Replies EmptyData
   \<and> anchorCredential empty_reply_env (Inr (Some hello_credential)) ''anchor-1''
       ''2025-01-01T00:00:01.000Z'' ''cred-1'' hello_hash Map.empty
     = (Inr \<lparr>res_anchorId = ''anchor-1'', res_txHash = None, res_proofHash = hello_hash,
             res_status = Pending, res_anchorType = Blockchain,
             res_anchor = unsent_hello_anchor Pending\<rparr>,
        [hello_hash \<mapsto> unsent_hello_anchor Pending])
   \<and> getAnchorByProofHash
       (anchor_settled empty_reply_env (Inr (Some hello_credential)) ''anchor-1''
          ''2025-01-01T00:00:01.000Z'' ''cred-1'' hello_hash Map.empty) hello_hash
     = Some (unsent_hello_anchor Failed)
   \<and> anchor_type (unsent_hello_anchor Failed) = Blockchain
   \<and> anchor_status (unsent_hello_anchor Failed) = Failed
   \<and> anchor_tx_hash (unsent_hello_anchor Failed) = None"
proof -
  have r: "rpc empty_reply_env = (\<lambda>m. Replies EmptyData)"
    by (simp add: empty_reply_env_def)
  have a: "anchorCredential empty_reply_env (Inr (Some hello_credential)) ''anchor-1''
       ''2025-01-01T00:00:01.000Z'' ''cred-1'' hello_hash Map.empty
     = (Inr \<lparr>res_anchorId = ''anchor-1'', res_txHash = None, res_proofHash = hello_hash,
             res_status = Pending, res_anchorType = Blockchain,
             res_anchor = unsent_hello_anchor Pending\<rparr>,
        [hello_hash \<mapsto> unsent_hello_anchor Pending])"
    using anchor_without_transaction_id(1)
            [of empty_reply_env hello_credential "''anchor-1''" "''2025-01-01T00:00:01.000Z''"
               "''cred-1''" hello_hash Map.empty]
          empty_replies_end_the_loop
    by (simp add: unsent_hello_anchor_def storeAnchor_def)
  have s: "getAnchorByProofHash
       (anchor_settled empty_reply_env (Inr (Some hello_credential)) ''anchor-1''
          ''2025-01-01T00:00:01.000Z'' ''cred-1'' hello_hash Map.empty) hello_hash
     = Some (unsent_hello_anchor Failed)"
    by (simp add: anchor_settled_def a no_receipt_times_out confirmation_update_def
          storeAnchor_def getAnchorByProofHash_def unsent_hello_anchor_def)
  show ?thesis
    using a s by (simp add: r unsent_hello_anchor_def)
qed

section \<open>C7: verifying a hash that was never issued\<close>

lemma lookup_without_record:
  assumes "\<forall>r \<in> set (records st). proof_hash r \<noteq> h"
  shows "fst (getCredentialByProofHash env h st) = Inr None
         \<or> (\<exists>e. fst (getCredentialByProofHash env h st) = Inl e)"
    and "client_ready env \<Longrightarrow> refresh_token_ok env
         \<Longrightarrow> fst (getCredentialByProofHash env h st) = Inr None"
    and "\<not> client_ready env \<or> \<not> refresh_token_ok env
         \<Longrightarrow> \<exists>e. fst (getCredentialByProofHash env h st) = Inl e"
proof -
  have "filter (\<lambda>r. proof_hash r = h) (records st) = []"
    using assms by (induction "records st") (auto simp: filter_empty_conv)
  then show "fst (getCredentialByProofHash env h st) = Inr None
         \<or> (\<exists>e. fst (getCredentialByProofHash env h st) = Inl e)"
    and "client_ready env \<Longrightarrow> refresh_token_ok env
         \<Longrightarrow> fst (getCredentialByProofHash env h st) = Inr None"
    and "\<not> client_ready env \<or> \<not> refresh_token_ok env
         \<Longrightarrow> \<exists>e. fst (getCredentialByProofHash env h st) = Inl e"
    by (auto simp: getCredentialByProofHash_def find_data_def log_call_def Let_def)
qed

text \<open>
  C7, as the code has it. For a valid 64-character hex proof hash with no stored
  record: \<open>POST /verify\<close> always answers not found, without a field \<open>exists\<close>, even
  when the lookup throws; \<open>POST /verify-proof\<close> answers not found with
  \<open>exists: false\<close> when the lookup completes, and hands the error of a lookup that
  throws to the error handler.
\<close>

theorem verify_unknown_hash:
  assumes "valid_proofHash (Some h)"
      and "\<forall>r \<in> set (records (nillion s)). proof_hash r \<noteq> h"
  shows "fst (verify env (Some h) s) = Inr (VerifyNotFound h)
       \<and> (client_ready env \<and> refresh_token_ok env
            \<longrightarrow> fst (verify_proof env (Some h) s) = Inr (ProofNotFound h)
                \<and> \<not> response_exists (ProofNotFound h))
       \<and> (\<not> client_ready env \<or> \<not> refresh_token_ok env
            \<longrightarrow> (\<exists>e. fst (verify_proof env (Some h) s) = Inl e))"
proof -
  obtain res st where g: "getCredentialByProofHash env h (nillion s) = (res, st)"
    by (cases "getCredentialByProofHash env h (nillion s)")
  from lookup_without_record [OF assms(2), of env] g
  have r: "res = Inr None \<or> (\<exists>e. res = Inl e)"
      "client_ready env \<Longrightarrow> refresh_token_ok env \<Longrightarrow> res = Inr None"
      "\<not> client_ready env \<or> \<not> refresh_token_ok env \<Longrightarrow> \<exists>e. res = Inl e"
    by auto
  from r(1) g assms(1) have v: "fst (verify env (Some h) s) = Inr (VerifyNotFound h)"
    by (auto simp: verify_def)
  from r(2) g assms(1)
  have p1: "client_ready env \<and> refresh_token_ok env
      \<longrightarrow> fst (verify_proof env (Some h) s) = Inr (ProofNotFound h)
          \<and> \<not> response_exists (ProofNotFound h)"
    by (auto simp: verify_proof_def response_exists_def)
  from r(3) g assms(1)
  have p2: "\<not> client_ready env \<or> \<not> refresh_token_ok env
      \<longrightarrow> (\<exists>e. fst (verify_proof env (Some h) s) = Inl e)"
    by (auto simp: verify_proof_def)
  from v p1 p2 show ?thesis by blast
qed

lemma valid_zero_hash: "valid_proofHash (Some zero_hash)"
  by (simp add: valid_proofHash_def zero_hash_def list_all_iff hex_value_def)

theorem verify_unknown_hash_witness:
  "valid_proofHash (Some zero_hash)
   \<and> records (nillion initial_server) = []
   \<and> client_ready healthy_env \<and> refresh_token_ok healthy_env
   \<and> \<not> client_ready no_client_env
   \<and> fst (verify healthy_env (Some zero_hash) initial_server) = Inr (VerifyNotFound zero_hash)
   \<and> fst (verify_proof healthy_env (Some zero_hash) initial_server)
       = Inr (ProofNotFound zero_hash)
   \<and> (\<exists>e. fst (verify_proof no_client_env (Some zero_hash) initial_server) = Inl e)"
proof -
  have e: "\<forall>r \<in> set (records (nillion initial_server)). proof_hash r \<noteq> zero_hash"
    by (simp add: initial_server_def initial_state_def)
  have c: "client_ready healthy_env" "refresh_token_ok healthy_env" "\<not> client_ready no_client_env"
    by (simp_all add: healthy_env_def no_client_env_def)
  from verify_unknown_hash [OF valid_zero_hash e, of healthy_env]
       verify_unknown_hash [OF valid_zero_hash e, of no_client_env] c valid_zero_hash
  show ?thesis by (simp add: initial_server_def initial_state_def)
qed

text \<open>
  C7 as stated fails on \<open>POST /verify-proof\<close>: with no stored record and a client that
  was never initialised, the valid hash of 64 zeros gets the error of the lookup, not a
  not-found response. And the not-found response of \<open>POST /verify\<close> is not the one the
  claim describes: it has no field \<open>exists\<close>.
\<close>

theorem verify_proof_propagates_lookup_error:
  "valid_proofHash (Some zero_hash)
   \<and> records (nillion initial_server) = []
   \<and> fst (verify_proof no_client_env (Some zero_hash) initial_server)
       = Inl (Error ''Nillion builder client not initialized'')"
  using valid_zero_hash
  by (simp add: verify_proof_def getCredentialByProofHash_def no_client_env_def healthy_env_def
        initial_server_def initial_state_def)

section \<open>C8: the history of anchors\<close>

lemma anchorCredential_stores_one_record:
  "\<exists>r. anchorCredential aenv (Inr (Some cred)) anchorId t credentialId h store
          = (Inr r, storeAnchor h (res_anchor r) store)
       \<and> anchor_id (res_anchor r) = anchorId \<and> anchor_proof_hash (res_anchor r) = h"
  by (cases "sendTransaction (rpc aenv) t
        (createTransaction (network aenv) (generateAddress (private_key aenv))
           (generateAddress (private_key aenv)) h
           (case nonce_reply aenv of None \<Rightarrow> 0 | Some n \<Rightarrow> n)) h")
     (simp_all add: anchorCredential_def Let_def)

text \<open>
  C8, as the code has it. The anchor store is a map from proof hash to one record.
  \<open>anchorCredential\<close> makes a new record, with the fresh id, and stores it under the
  proof hash, where it replaces whatever record was there; the records of other proof
  hashes stay. The confirmation callback stores the changed record under the same key.
  \<open>POST /verify\<close> reports, for a credential it finds, the record that the store
  holds for the hash, which is the one written last.
\<close>

theorem anchor_store_keeps_one_record_per_hash:
  "(\<exists>r. anchorCredential aenv (Inr (Some cred)) anchorId t credentialId h store
          = (Inr r, storeAnchor h (res_anchor r) store)
        \<and> anchor_id (res_anchor r) = anchorId \<and> anchor_proof_hash (res_anchor r) = h)
   \<and> storeAnchor h a2 (storeAnchor h a1 store) = storeAnchor h a2 store
   \<and> getAnchorByProofHash (storeAnchor h a2 (storeAnchor h a1 store)) h = Some a2
   \<and> (h' \<noteq> h \<longrightarrow> getAnchorByProofHash (storeAnchor h a2 store) h'
                   = getAnchorByProofHash store h')
   \<and> (valid_proofHash (Some h)
        \<and> fst (getCredentialByProofHash env h (nillion s)) = Inr (Some found)
        \<longrightarrow> fst (verify env (Some h) s)
            = Inr (VerifyFound found (getAnchorByProofHash (anchors s) h)))"
proof -
  have v: "valid_proofHash (Some h)
        \<and> fst (getCredentialByProofHash env h (nillion s)) = Inr (Some found)
        \<longrightarrow> fst (verify env (Some h) s)
            = Inr (VerifyFound found (getAnchorByProofHash (anchors s) h))"
    by (cases "getCredentialByProofHash env h (nillion s)") (auto simp: verify_def)
  show ?thesis
    using anchorCredential_stores_one_record [of aenv cred anchorId t credentialId h store] v
    by (simp add: storeAnchor_def getAnchorByProofHash_def)
qed

lemma hello_lookup:
  "getCredentialByProofHash healthy_env hello_hash hello_stored_state
   = (Inr (Some hello_credential),
      hello_stored_state\<lparr>calls := calls hello_stored_state @ [RefreshRootToken, FindData]\<rparr>)"
  by (simp add: getCredentialByProofHash_def healthy_env_def hello_stored_state_def
        find_data_def log_call_def hello_hash_def hello_credential_def credential_of_def Let_def)

lemma valid_hello_hash: "valid_proofHash (Some hello_hash)"
  by (simp add: valid_proofHash_def hello_hash_def hex_value_def)

theorem anchor_store_keeps_one_record_per_hash_witness:
  "''other'' \<noteq> hello_hash
   \<and> getAnchorByProofHash
        (storeAnchor hello_hash verified_hello_anchor
           (storeAnchor ''other'' failed_hello_anchor Map.empty)) ''other''
      = getAnchorByProofHash (storeAnchor ''other'' failed_hello_anchor Map.empty) ''other''
   \<and> valid_proofHash (Some hello_hash)
   \<and> fst (getCredentialByProofHash healthy_env hello_hash
            (nillion \<lparr>nillion = hello_stored_state,
                       anchors = storeAnchor hello_hash verified_hello_anchor Map.empty\<rparr>))
       = Inr (Some hello_credential)
   \<and> fst (verify healthy_env (Some hello_hash)
            \<lparr>nillion = hello_stored_state,
             anchors = storeAnchor hello_hash verified_hello_anchor Map.empty\<rparr>)
       = Inr (VerifyFound hello_credential
               (getAnchorByProofHash
                  (anchors \<lparr>nillion = hello_stored_state,
                            anchors = storeAnchor hello_hash verified_hello_anchor Map.empty\<rparr>)
                  hello_hash))"
proof -
  have n: "''other'' \<noteq> hello_hash"
    by (simp add: hello_hash_def)
  have l: "fst (getCredentialByProofHash healthy_env hello_hash
                 (nillion \<lparr>nillion = hello_stored_state,
                            anchors = storeAnchor hello_hash verified_hello_anchor Map.empty\<rparr>))
           = Inr (Some hello_credential)"
    by (simp add: hello_lookup)
  from anchor_store_keeps_one_record_per_hash
         [of unsupported_rpc_env hello_credential "''anchor-1''" "''t''" "''cred-1''" hello_hash
            "storeAnchor ''other'' failed_hello_anchor Map.empty" verified_hello_anchor
            failed_hello_anchor "''other''" healthy_env
            "\<lparr>nillion = hello_stored_state,
              anchors = storeAnchor hello_hash verified_hello_anchor Map.empty\<rparr>"
            hello_credential]
       n l valid_hello_hash
  show ?thesis
    by blast
qed

lemma poll_never_answers:
  "waitForConfirmation (\<lambda>n. PollThrows) = Inl (Error ''getTransactionReceipt failed'')"
  by (simp add: waitForConfirmation_def waitLoop_numeral)

lemma first_anchor_fails:
  "anchor_settled silent_chain_env (Inr (Some hello_credential)) ''anchor-1''
     ''2025-01-01T00:00:01.000Z'' ''cred-1'' hello_hash Map.empty
   = [hello_hash \<mapsto>
        failed_hello_anchor]"
  by (simp add: anchor_settled_def anchorCredential_def sendTransaction_def rpc_methods_def
        silent_chain_env_def storeAnchor_def confirmation_update_def poll_never_answers Let_def
        failed_hello_anchor_def)

lemma second_anchor_replaces:
  "anchor_settled unsupported_rpc_env (Inr (Some hello_credential)) ''anchor-2''
     ''2025-01-02T00:00:01.000Z'' ''cred-1'' hello_hash
     [hello_hash \<mapsto>
        failed_hello_anchor]
   = [hello_hash \<mapsto>
        verified_hello_anchor]"
  by (simp add: anchor_settled_def anchorCredential_def sendTransaction_def rpc_methods_def
        unsupported_rpc_env_def storeAnchor_def or_else_def hello_hash_def Let_def
        verified_hello_anchor_def)

text \<open>
  C8 as stated fails: the history is a single record. A blockchain anchor of the hash
  of \<open>hello\<close> is submitted and fails, since no poll for its receipt is answered. The
  anchor is submitted again: the store then holds one record for the hash, the
  new one, and the failed record is gone. The failure itself was written into the
  first record, whose status went from \<open>pending\<close> to \<open>failed\<close>.
\<close>

theorem resubmitted_anchor_replaces_failed_one:
  "map_option anchor_id
     (getAnchorByProofHash
        (anchor_settled silent_chain_env (Inr (Some hello_credential)) ''anchor-1''
           ''2025-01-01T00:00:01.000Z'' ''cred-1'' hello_hash Map.empty) hello_hash)
     = Some ''anchor-1''
   \<and> map_option anchor_status
     (getAnchorByProofHash
        (snd (anchorCredential silent_chain_env (Inr (Some hello_credential)) ''anchor-1''
           ''2025-01-01T00:00:01.000Z'' ''cred-1'' hello_hash Map.empty)) hello_hash)
     = Some Pending
   \<and> map_option anchor_status
     (getAnchorByProofHash
        (anchor_settled silent_chain_env (Inr (Some hello_credential)) ''anchor-1''
           ''2025-01-01T00:00:01.000Z'' ''cred-1'' hello_hash Map.empty) hello_hash)
     = Some Failed
   \<and> dom (anchor_settled unsupported_rpc_env (Inr (Some hello_credential)) ''anchor-2''
           ''2025-01-02T00:00:01.000Z'' ''cred-1'' hello_hash
           (anchor_settled silent_chain_env (Inr (Some hello_credential)) ''anchor-1''
              ''2025-01-01T00:00:01.000Z'' ''cred-1'' hello_hash Map.empty))
     = {hello_hash}
   \<and> map_option anchor_id
     (getAnchorByProofHash
        (anchor_settled unsupported_rpc_env (Inr (Some hello_credential)) ''anchor-2''
           ''2025-01-02T00:00:01.000Z'' ''cred-1'' hello_hash
           (anchor_settled silent_chain_env (Inr (Some hello_credential)) ''anchor-1''
              ''2025-01-01T00:00:01.000Z'' ''cred-1'' hello_hash Map.empty)) hello_hash)
     = Some ''anchor-2''"
proof -
  have p: "map_option anchor_status
     (getAnchorByProofHash
        (snd (anchorCredential silent_chain_env (Inr (Some hello_credential)) ''anchor-1''
           ''2025-01-01T00:00:01.000Z'' ''cred-1'' hello_hash Map.empty)) hello_hash)
     = Some Pending"
    by (simp add: anchorCredential_def sendTransaction_def rpc_methods_def
          silent_chain_env_def storeAnchor_def getAnchorByProofHash_def Let_def)
  show ?thesis
    by (simp only: first_anchor_fails second_anchor_replaces p)
       (simp add: getAnchorByProofHash_def failed_hello_anchor_def verified_hello_anchor_def)
qed

section \<open>C9: the size of the plaintext fields\<close>
















section \<open>C10: the proof hash sent by the client\<close>

lemma upload_payload_ignores_client_hash:
  "upload_payload (req\<lparr>req_clientProofHash := c\<rparr>) = upload_payload req"
  by (simp add: upload_payload_def cong: sum.case_cong option.case_cong error.case_cong)

lemma upload_store_without_mismatch:
  assumes "req_clientProofHash req = None \<or> req_clientProofHash req = Some []
         \<or> req_clientProofHash req = Some (pl_proofHash pl)"
  shows "upload_store env ids req pl st
         = (case getCredentialByProofHash env (pl_proofHash pl) st of
              (Inr (Some existingCredential), st1) \<Rightarrow>
                (Inr (AlreadyExists (cred_id existingCredential)
                        (cred_proof_hash existingCredential)
                        (or_else (cred_status existingCredential) ''vaulted'')), st1)
            | (_, st1) \<Rightarrow>
                (case storeCredential env (new_recordId ids) (now ids) (new_credentialId ids)
                        (pl_fileData pl)
                        \<lparr>meta_fileName = pl_fileName pl, meta_fileType = pl_fileType pl,
                         meta_proofHash = pl_proofHash pl, meta_sizeBytes = pl_sizeBytes pl,
                         meta_userId = new_userId ids\<rparr> st1 of
                   (Inr vaultId, st2) \<Rightarrow>
                     (Inr (Stored (new_credentialId ids) (pl_proofHash pl) vaultId ''vaulted''),
                      st2)
                 | (Inl Unmodelled, st2) \<Rightarrow> (Inl Unmodelled, st2)
                 | (Inl vaultError, st2) \<Rightarrow>
                     (Inl (AppError ''Failed to store credential in vault'' 500), st2)))"
proof -
  from assms have "\<not> (truthy (req_clientProofHash req)
      \<and> req_clientProofHash req \<noteq> Some (pl_proofHash pl))"
    by (auto simp: truthy_def)
  then show ?thesis
    unfolding upload_store_def by (simp only: if_False)
qed

text \<open>
  C10. \<open>POST /upload\<close> compares an optional field \<open>clientProofHash\<close> with the
  proof hash it computed for the payload. Present (not empty) and different, the
  upload is refused with \<open>ValidationError('Client proof hash does not match server
  computation')\<close> and the store is as it was: no SDK call was made, no record written.
  Absent, empty or equal, the upload does what it does for the same request without
  the field, and it proceeds: the answer is not that error, a credential that the
  duplicate check finds is reported as existing, and otherwise the payload goes to
  \<open>storeCredential\<close>, whose vault id is answered with the new credential id and the
  proof hash.
\<close>

theorem client_proof_hash_cross_check:
  assumes "upload_payload req = Inr pl"
  shows "(\<forall>c. req_clientProofHash req = Some c \<and> c \<noteq> [] \<and> c \<noteq> pl_proofHash pl
            \<longrightarrow> upload env ids req st
                = (Inl (ValidationError ''Client proof hash does not match server computation''), st))
       \<and> (req_clientProofHash req = None \<or> req_clientProofHash req = Some []
          \<or> req_clientProofHash req = Some (pl_proofHash pl)
            \<longrightarrow> upload env ids req st = upload env ids (req\<lparr>req_clientProofHash := None\<rparr>) st
              \<and> fst (upload env ids req st)
                  \<noteq> Inl (ValidationError ''Client proof hash does not match server computation'')
              \<and> (\<forall>existing st1.
                    getCredentialByProofHash env (pl_proofHash pl) st = (Inr (Some existing), st1)
                    \<longrightarrow> upload env ids req st
                        = (Inr (AlreadyExists (cred_id existing) (cred_proof_hash existing)
                                  (or_else (cred_status existing) ''vaulted'')), st1))
              \<and> (\<forall>lookup st1 vaultId st2.
                    getCredentialByProofHash env (pl_proofHash pl) st = (lookup, st1)
                    \<and> (\<forall>existing. lookup \<noteq> Inr (Some existing))
                    \<and> storeCredential env (new_recordId ids) (now ids) (new_credentialId ids)
                        (pl_fileData pl)
                        \<lparr>meta_fileName = pl_fileName pl, meta_fileType = pl_fileType pl,
                         meta_proofHash = pl_proofHash pl, meta_sizeBytes = pl_sizeBytes pl,
                         meta_userId = new_userId ids\<rparr> st1 = (Inr vaultId, st2)
                    \<longrightarrow> upload env ids req st
                        = (Inr (Stored (new_credentialId ids) (pl_proofHash pl) vaultId
                                  ''vaulted''), st2)))"
proof -
  let ?mismatch = "ValidationError ''Client proof hash does not match server computation''"
  have reject: "\<forall>c. req_clientProofHash req = Some c \<and> c \<noteq> [] \<and> c \<noteq> pl_proofHash pl
            \<longrightarrow> upload env ids req st = (Inl ?mismatch, st)"
    using assms by (auto simp: upload_def upload_store_def truthy_def)
  {
    assume ok: "req_clientProofHash req = None \<or> req_clientProofHash req = Some []
          \<or> req_clientProofHash req = Some (pl_proofHash pl)"
    note u = upload_store_without_mismatch [OF ok, of env ids st]
    have same: "upload env ids req st = upload env ids (req\<lparr>req_clientProofHash := None\<rparr>) st"
      using assms ok
      by (auto simp: upload_def upload_payload_ignores_client_hash upload_store_def truthy_def)
    have up: "upload env ids req st = upload_store env ids req pl st"
      using assms by (simp add: upload_def)
    have goes_on: "fst (upload env ids req st) \<noteq> Inl ?mismatch"
      unfolding up u
      by (auto split: prod.splits sum.splits option.splits error.splits)
    have found: "\<forall>existing st1.
        getCredentialByProofHash env (pl_proofHash pl) st = (Inr (Some existing), st1)
        \<longrightarrow> upload env ids req st
            = (Inr (AlreadyExists (cred_id existing) (cred_proof_hash existing)
                      (or_else (cred_status existing) ''vaulted'')), st1)"
      unfolding up u by simp
    have stored: "\<forall>lookup st1 vaultId st2.
        getCredentialByProofHash env (pl_proofHash pl) st = (lookup, st1)
        \<and> (\<forall>existing. lookup \<noteq> Inr (Some existing))
        \<and> storeCredential env (new_recordId ids) (now ids) (new_credentialId ids)
            (pl_fileData pl)
            \<lparr>meta_fileName = pl_fileName pl, meta_fileType = pl_fileType pl,
             meta_proofHash = pl_proofHash pl, meta_sizeBytes = pl_sizeBytes pl,
             meta_userId = new_userId ids\<rparr> st1 = (Inr vaultId, st2)
        \<longrightarrow> upload env ids req st
            = (Inr (Stored (new_credentialId ids) (pl_proofHash pl) vaultId ''vaulted''), st2)"
      unfolding up u
      by (auto split: sum.splits option.splits)
    note same goes_on found stored
  }
  with reject show ?thesis
    by blast
qed

lemma hello_first_lookup:
  "getCredentialByProofHash healthy_env
     ''2cf24dba5fb0a30e26e83b2ac5b9e29e1b161e5c1fa7425e73043362938b9824'' initial_state
   = (Inr None, initial_state\<lparr>calls := [RefreshRootToken, FindData]\<rparr>)"
  by (simp add: getCredentialByProofHash_def healthy_env_def initial_state_def find_data_def
        log_call_def Let_def)

lemma hello_first_store:
  "storeCredential healthy_env ''rec-1'' ''2025-01-01T00:00:00.000Z'' ''cred-1'' ''hello''
     \<lparr>meta_fileName = ''hello.txt'', meta_fileType = ''text/plain'',
      meta_proofHash = ''2cf24dba5fb0a30e26e83b2ac5b9e29e1b161e5c1fa7425e73043362938b9824'',
      meta_sizeBytes = 5, meta_userId = ''user-1''\<rparr>
     (initial_state\<lparr>calls := [RefreshRootToken, FindData]\<rparr>)
   = (Inr collectionId, hello_stored_state)"
  by (simp add: healthy_env_def initial_state_def
        storeCredential_def storeCredentialReal_def log_call_def
        validate_plaintext_def field_sizes_def utf8_length_def utf8_encode_def utf8_char_def
        nat_to_string.simps or_else_def record_violations_def Let_def hello_stored_state_def)

theorem client_proof_hash_cross_check_witness:
  "upload_payload (hello_request\<lparr>req_clientProofHash := Some zero_hash\<rparr>)
     = Inr \<lparr>pl_proofHash = ''2cf24dba5fb0a30e26e83b2ac5b9e29e1b161e5c1fa7425e73043362938b9824'',
            pl_fileData = ''hello'', pl_fileName = ''hello.txt'', pl_fileType = ''text/plain'',
            pl_sizeBytes = 5\<rparr>
   \<and> zero_hash \<noteq> [] 
   \<and> zero_hash \<noteq> ''2cf24dba5fb0a30e26e83b2ac5b9e29e1b161e5c1fa7425e73043362938b9824''
   \<and> upload healthy_env first_ids (hello_request\<lparr>req_clientProofHash := Some zero_hash\<rparr>)
        initial_state
      = (Inl (ValidationError ''Client proof hash does not match server computation''),
         initial_state)
   \<and> upload healthy_env first_ids
        (hello_request\<lparr>req_clientProofHash :=
           Some ''2cf24dba5fb0a30e26e83b2ac5b9e29e1b161e5c1fa7425e73043362938b9824''\<rparr>)
        initial_state
      = upload healthy_env first_ids hello_request initial_state
   \<and> getCredentialByProofHash healthy_env
        ''2cf24dba5fb0a30e26e83b2ac5b9e29e1b161e5c1fa7425e73043362938b9824'' initial_state
      = (Inr None, initial_state\<lparr>calls := [RefreshRootToken, FindData]\<rparr>)
   \<and> upload healthy_env first_ids
        (hello_request\<lparr>req_clientProofHash :=
           Some ''2cf24dba5fb0a30e26e83b2ac5b9e29e1b161e5c1fa7425e73043362938b9824''\<rparr>)
        initial_state
      = (Inr (Stored ''cred-1''
                ''2cf24dba5fb0a30e26e83b2ac5b9e29e1b161e5c1fa7425e73043362938b9824''
                collectionId ''vaulted''), hello_stored_state)
   \<and> getCredentialByProofHash healthy_env
        ''2cf24dba5fb0a30e26e83b2ac5b9e29e1b161e5c1fa7425e73043362938b9824'' hello_stored_state
      = (Inr (Some hello_credential),
         hello_stored_state\<lparr>calls := calls hello_stored_state @ [RefreshRootToken, FindData]\<rparr>)
   \<and> upload healthy_env second_ids
        (hello_request\<lparr>req_clientProofHash :=
           Some ''2cf24dba5fb0a30e26e83b2ac5b9e29e1b161e5c1fa7425e73043362938b9824''\<rparr>)
        hello_stored_state
      = (Inr (AlreadyExists ''cred-1''
                ''2cf24dba5fb0a30e26e83b2ac5b9e29e1b161e5c1fa7425e73043362938b9824''
                ''vaulted''),
         hello_stored_state\<lparr>calls := calls hello_stored_state @ [RefreshRootToken, FindData]\<rparr>)"
proof -
  let ?h = "''2cf24dba5fb0a30e26e83b2ac5b9e29e1b161e5c1fa7425e73043362938b9824''"
  let ?pl = "\<lparr>pl_proofHash = ?h, pl_fileData = ''hello'', pl_fileName = ''hello.txt'',
              pl_fileType = ''text/plain'', pl_sizeBytes = 5\<rparr>"
  let ?eq = "hello_request\<lparr>req_clientProofHash := Some ?h\<rparr>"
  let ?st1 = "initial_state\<lparr>calls := [RefreshRootToken, FindData]\<rparr>"
  let ?st2 = "hello_stored_state\<lparr>calls := calls hello_stored_state @ [RefreshRootToken, FindData]\<rparr>"
  have z: "zero_hash \<noteq> [] \<and> zero_hash \<noteq> ?h"
    by (simp add: zero_hash_def replicate_numeral_eval)
  have n: "hello_request\<lparr>req_clientProofHash := None\<rparr> = hello_request"
    by (simp add: hello_request_def)
  have c: "req_clientProofHash ?eq = Some (pl_proofHash ?pl)"
    by simp
  have l2: "getCredentialByProofHash healthy_env ?h hello_stored_state
            = (Inr (Some hello_credential), ?st2)"
    using hello_lookup by (simp add: hello_hash_def)
  have hc: "cred_id hello_credential = ''cred-1''"
      "cred_proof_hash hello_credential = ?h"
      "or_else (cred_status hello_credential) ''vaulted'' = ''vaulted''"
    by (simp_all add: hello_credential_def hello_hash_def or_else_def)
  from client_proof_hash_cross_check
         [OF hello_payload [of "Some zero_hash"], of healthy_env first_ids initial_state] z
  have a: "upload healthy_env first_ids (hello_request\<lparr>req_clientProofHash := Some zero_hash\<rparr>)
        initial_state
      = (Inl (ValidationError ''Client proof hash does not match server computation''),
         initial_state)"
    by simp
  note first = client_proof_hash_cross_check
         [OF hello_payload [of "Some ?h"], of healthy_env first_ids initial_state,
          THEN conjunct2, rule_format, OF disjI2 [OF disjI2 [OF c]]]
  note second = client_proof_hash_cross_check
         [OF hello_payload [of "Some ?h"], of healthy_env second_ids hello_stored_state,
          THEN conjunct2, rule_format, OF disjI2 [OF disjI2 [OF c]]]
  from first [THEN conjunct1]
  have b: "upload healthy_env first_ids ?eq initial_state
      = upload healthy_env first_ids hello_request initial_state"
    by (simp add: n)
  from first [THEN conjunct2, THEN conjunct2, THEN conjunct2, rule_format,
              of "Inr None" ?st1 collectionId hello_stored_state]
  have s: "upload healthy_env first_ids ?eq initial_state
      = (Inr (Stored ''cred-1'' ?h collectionId ''vaulted''), hello_stored_state)"
    by (simp add: hello_first_lookup hello_first_store first_ids_def)
  from second [THEN conjunct2, THEN conjunct2, THEN conjunct1, rule_format,
               of hello_credential ?st2]
  have e: "upload healthy_env second_ids ?eq hello_stored_state
      = (Inr (AlreadyExists ''cred-1'' ?h ''vaulted''), ?st2)"
    by (simp add: l2 hc)
  show ?thesis
    using z a b s e l2 hello_first_lookup hello_payload [of "Some zero_hash"] by simp
qed
end
